theory Spec2Isabelle
  imports Complex_Main
begin

section \<open>Geometry handed to the renderer\<close>

text \<open>
  The model follows \<^verbatim>\<open>src/CGALRenderer.cc\<close>. Coordinates, widths and colour
  components are the program's floating-point numbers, read as reals: the renderer only
  stores them, compares nothing but their order (bounding boxes) and copies them back.
\<close>

type_synonym Vector3d = "real \<times> real \<times> real"
type_synonym Polygon = "Vector3d list"
type_synonym Polygon2d = "(real \<times> real) list list"

text \<open>\<^verbatim>\<open>PolySet\<close>: what \<^verbatim>\<open>getDimension()\<close>, \<^verbatim>\<open>convexValue()\<close> (a tribool),
  \<^verbatim>\<open>getConvexity()\<close> and \<^verbatim>\<open>polygons\<close> give.\<close>

record PolySet =
  ps_dimension :: nat
  ps_convex :: "bool option"
  ps_convexity :: nat
  ps_polygons :: "Polygon list"

text \<open>\<^verbatim>\<open>CGAL_Nef_polyhedron\<close>: \<^verbatim>\<open>getDimension()\<close>, \<^verbatim>\<open>isEmpty()\<close> and the kernel
  structure \<^verbatim>\<open>p3\<close>, which the renderer never inspects (a handle).\<close>

record CGAL_Nef_polyhedron =
  nef_dimension :: nat
  nef_isEmpty :: bool
  nef_p3 :: nat

text \<open>The dynamic type of a \<^verbatim>\<open>shared_ptr<const Geometry>\<close>. \<open>OtherGeometry\<close> stands for
  every value none of the four \<^verbatim>\<open>dynamic_pointer_cast\<close>s accepts (another subclass, or a
  null pointer). A child of a \<^verbatim>\<open>GeometryList\<close> is a pair of a node and a geometry.\<close>

datatype Geometry =
    GeometryList "(nat \<times> Geometry) list"
  | PolySetGeometry PolySet
  | Polygon2dGeometry Polygon2d
  | NefGeometry CGAL_Nef_polyhedron
  | OtherGeometry

section \<open>Colours\<close>

datatype Color4f = Color4f real real real real

text \<open>The keys of the renderer's \<^verbatim>\<open>colormap\<close> (\<^verbatim>\<open>ColorMode\<close>) and of a colour scheme
  (\<^verbatim>\<open>RenderColor\<close>). Only three modes are named in this file; the others are numbered.\<close>

datatype ColorMode = MATERIAL | CGAL_FACE_2D_COLOR | CGAL_EDGE_2D_COLOR | OtherColorMode nat

datatype RenderColor = RC_CGAL_FACE_2D_COLOR | RC_CGAL_EDGE_2D_COLOR | OtherRenderColor nat

type_synonym ColorScheme = nat

section \<open>The graphics context\<close>

datatype GLenum = GL_LIGHTING | GL_DEPTH_TEST | GL_VERTEX_ARRAY | GL_NORMAL_ARRAY | GL_COLOR_ARRAY

type_synonym vertex = "Vector3d \<times> Vector3d option \<times> Color4f"

text \<open>Calls of the graphics API. \<open>GlDrawArrays\<close> carries the vertex data (position, normal
  if the layout has one, colour) of the range it draws; \<open>GlOtherCall\<close> is any call that
  leaves the capabilities, the point size, the line width and the buffer binding alone.\<close>

datatype gl_call =
    GlDisable GLenum
  | GlEnable GLenum
  | GlEnableClientState GLenum
  | GlDisableClientState GLenum
  | GlLineWidth real
  | GlPointSize real
  | GlBindBuffer nat
  | GlGenBuffers nat
  | GlBeginPolygon
  | GlVertex3d real real real
  | GlEnd
  | GlDrawArrays "vertex list"
  | GlOtherCall string

datatype csgmode_e = CSGMODE_NONE | CSGMODE_NORMAL

datatype SNC_style = SNC_BOUNDARY | SNC_SKELETON

text \<open>A \<^verbatim>\<open>CGAL_OGL_Polyhedron\<close> (or its subclass \<^verbatim>\<open>CGAL_OGL_VBOPolyhedron\<close>): the class it
  was constructed as, the colour scheme passed to the constructor, the Nef polyhedron it was
  converted from, whether \<^verbatim>\<open>init()\<close> ran, and the style \<^verbatim>\<open>set_style\<close> last gave it.\<close>

record CGAL_OGL_Polyhedron =
  ogl_is_VBO :: bool
  ogl_colorscheme :: ColorScheme
  ogl_converted_from :: CGAL_Nef_polyhedron
  ogl_initialized :: bool
  ogl_style :: SNC_style

text \<open>What reaches the graphics layer, in order: API calls, and the calls of helpers that
  live outside this file (\<^verbatim>\<open>Renderer::setColor\<close>, \<^verbatim>\<open>render_edges\<close>, \<^verbatim>\<open>render_surface\<close>,
  \<^verbatim>\<open>VertexArray::createInterleavedVBO\<close>, \<^verbatim>\<open>CGAL_OGL_Polyhedron::draw\<close>), recorded with
  their arguments.\<close>

datatype event =
    GL gl_call
  | SetColor ColorMode Color4f
  | RenderEdges PolySet csgmode_e
  | RenderSurface PolySet csgmode_e
  | CreateInterleavedVBO nat
  | PolyhedronDraw CGAL_OGL_Polyhedron bool

record GLcontext =
  gl_enabled :: "GLenum \<Rightarrow> bool"
  gl_point_size :: real
  gl_line_width :: real
  gl_array_buffer :: nat
  gl_next_buffer :: nat
  gl_issued :: "event list"

text \<open>The effect of one API call on the tracked state. \<^verbatim>\<open>glGenBuffers\<close> hands out the
  next unused buffer name.\<close>

fun gl_effect :: "gl_call \<Rightarrow> GLcontext \<Rightarrow> GLcontext" where
  "gl_effect (GlDisable c) g = g\<lparr>gl_enabled := (gl_enabled g)(c := False)\<rparr>"
| "gl_effect (GlEnable c) g = g\<lparr>gl_enabled := (gl_enabled g)(c := True)\<rparr>"
| "gl_effect (GlEnableClientState c) g = g\<lparr>gl_enabled := (gl_enabled g)(c := True)\<rparr>"
| "gl_effect (GlDisableClientState c) g = g\<lparr>gl_enabled := (gl_enabled g)(c := False)\<rparr>"
| "gl_effect (GlLineWidth w) g = g\<lparr>gl_line_width := w\<rparr>"
| "gl_effect (GlPointSize s) g = g\<lparr>gl_point_size := s\<rparr>"
| "gl_effect (GlBindBuffer b) g = g\<lparr>gl_array_buffer := b\<rparr>"
| "gl_effect (GlGenBuffers b) g = g\<lparr>gl_next_buffer := Suc b\<rparr>"
| "gl_effect GlBeginPolygon g = g"
| "gl_effect (GlVertex3d x y z) g = g"
| "gl_effect GlEnd g = g"
| "gl_effect (GlDrawArrays vs) g = g"
| "gl_effect (GlOtherCall s) g = g"

text \<open>Issuing an event appends it to the record of what was issued; an API call also has
  its effect. The helpers' own effects on the context are outside this file and not
  tracked.\<close>

fun emit :: "event \<Rightarrow> GLcontext \<Rightarrow> GLcontext" where
  "emit (GL c) g = (gl_effect c g)\<lparr>gl_issued := gl_issued g @ [GL c]\<rparr>"
| "emit e g = g\<lparr>gl_issued := gl_issued g @ [e]\<rparr>"

definition emits :: "event list \<Rightarrow> GLcontext \<Rightarrow> GLcontext" where
  "emits es g = fold emit es g"

section \<open>Vertex states (draw segments)\<close>

text \<open>A \<^verbatim>\<open>VertexState\<close>: the closures of \<^verbatim>\<open>glBegin()\<close> and \<^verbatim>\<open>glEnd()\<close> as the API calls
  they make, and the vertex data its draw call renders. A default-constructed state has no
  actions and no data.\<close>

record VertexState =
  vs_glBegin :: "gl_call list"
  vs_vertices :: "vertex list"
  vs_glEnd :: "gl_call list"

definition new_VertexState :: VertexState where
  "new_VertexState = \<lparr>vs_glBegin = [], vs_vertices = [], vs_glEnd = []\<rparr>"

text \<open>Modelled from the spec: \<^verbatim>\<open>VertexState::drawArrays\<close> is not in this file. The spec has
  the dispatcher "issue each segment's pre-actions, its draw call, its post-actions".\<close>

definition drawArrays :: "VertexState \<Rightarrow> GLcontext \<Rightarrow> GLcontext" where
  "drawArrays vs g =
     emits (map GL (vs_glBegin vs) @ [GL (GlDrawArrays (vs_vertices vs))] @ map GL (vs_glEnd vs)) g"

section \<open>Bounding boxes\<close>

text \<open>Modelled from the spec: \<^verbatim>\<open>BoundingBox\<close> is an axis-aligned box type declared outside
  this file. A default-constructed box is empty; \<^verbatim>\<open>extend\<close> (here \<open>bbox_extend\<close>) by a box gives the smallest box
  holding both ("union of axis-aligned bounds", "empty (no extension applied)").\<close>

datatype BoundingBox = EmptyBox | Box Vector3d Vector3d

fun cwiseMin :: "Vector3d \<Rightarrow> Vector3d \<Rightarrow> Vector3d" where
  "cwiseMin (x, y, z) (x', y', z') = (min x x', min y y', min z z')"

fun cwiseMax :: "Vector3d \<Rightarrow> Vector3d \<Rightarrow> Vector3d" where
  "cwiseMax (x, y, z) (x', y', z') = (max x x', max y y', max z z')"

fun bbox_extend :: "BoundingBox \<Rightarrow> BoundingBox \<Rightarrow> BoundingBox" where
  "bbox_extend EmptyBox b = b"
| "bbox_extend (Box lo hi) EmptyBox = Box lo hi"
| "bbox_extend (Box lo hi) (Box lo' hi') = Box (cwiseMin lo lo') (cwiseMax hi hi')"

section \<open>Collaborators outside this file\<close>

text \<open>The functions \<^verbatim>\<open>CGALRenderer.cc\<close> calls and does not define, taken as parameters:
  \<^item> \<^verbatim>\<open>PolysetUtils::tessellate_faces\<close>: the faces it appends to the (fresh) output set;
  \<^item> \<^verbatim>\<open>Polygon2d::tessellate\<close>;
  \<^item> \<^verbatim>\<open>ColorMap::getColor\<close>;
  \<^item> \<^verbatim>\<open>Renderer::setColorScheme\<close>: what the base class does to the colormap;
  \<^item> \<^verbatim>\<open>create_polygons\<close>, \<^verbatim>\<open>create_edges\<close>, \<^verbatim>\<open>create_surface\<close>: the vertex states they
    append to the vertex array's state list, for a polygon set, a CSG mode and a colour (the
    transform is always the identity here);
  \<^item> \<^verbatim>\<open>PolySet::getBoundingBox\<close>;
  \<^item> \<^verbatim>\<open>CGAL_OGL_Polyhedron::bbox\<close>: the corners of its \<^verbatim>\<open>CGAL::Bbox_3\<close>.\<close>

record externals =
  tessellate_faces :: "PolySet \<Rightarrow> Polygon list"
  Polygon2d_tessellate :: "Polygon2d \<Rightarrow> PolySet"
  ColorMap_getColor :: "ColorScheme \<Rightarrow> RenderColor \<Rightarrow> Color4f"
  Renderer_setColorScheme :: "ColorScheme \<Rightarrow> (ColorMode \<Rightarrow> Color4f) \<Rightarrow> (ColorMode \<Rightarrow> Color4f)"
  create_polygons :: "PolySet \<Rightarrow> csgmode_e \<Rightarrow> Color4f \<Rightarrow> VertexState list"
  create_edges :: "PolySet \<Rightarrow> csgmode_e \<Rightarrow> Color4f \<Rightarrow> VertexState list"
  create_surface :: "PolySet \<Rightarrow> csgmode_e \<Rightarrow> Color4f \<Rightarrow> VertexState list"
  PolySet_getBoundingBox :: "PolySet \<Rightarrow> BoundingBox"
  Polyhedron_bbox :: "CGAL_OGL_Polyhedron \<Rightarrow> Vector3d \<times> Vector3d"

section \<open>The renderer\<close>

text \<open>The members of \<^verbatim>\<open>CGALRenderer\<close> this file reads or writes (\<open>colormap\<close> and
  \<open>colorscheme\<close> are inherited from \<^verbatim>\<open>Renderer\<close>), and \<open>debug_trace\<close>: the messages of the
  \<^verbatim>\<open>PRINTD\<close> calls its methods made, in order (for \<^verbatim>\<open>PRINTDB\<close> the format string; the
  prints inside the closures of a vertex state depend on the debug setting and are left out).
  An entry of \<open>polyset_states\<close> is a shared pointer, \<open>None\<close> when null.\<close>

record CGALRenderer =
  polysets :: "PolySet list"
  nefPolyhedrons :: "CGAL_Nef_polyhedron list"
  polyhedrons :: "CGAL_OGL_Polyhedron list"
  last_render_state :: bool
  polyset_vbo :: nat
  polyset_states :: "VertexState option list"
  colormap :: "ColorMode \<Rightarrow> Color4f"
  colorscheme :: ColorScheme
  debug_trace :: "string list"

datatype error = AssertionFailed

definition PRINTD :: "string \<Rightarrow> CGALRenderer \<Rightarrow> CGALRenderer" where
  "PRINTD msg r = r\<lparr>debug_trace := debug_trace r @ [msg]\<rparr>"

subsection \<open>addGeometry and the constructor\<close>

text \<open>The tessellated copy of a 3D polygon set: \<^verbatim>\<open>new PolySet(3, ps->convexValue())\<close>, the
  convexity copied, the faces from \<^verbatim>\<open>tessellate_faces\<close>.\<close>

definition ps_tri :: "externals \<Rightarrow> PolySet \<Rightarrow> PolySet" where
  "ps_tri X ps =
     \<lparr>ps_dimension = 3, ps_convex = ps_convex ps, ps_convexity = ps_convexity ps,
      ps_polygons = tessellate_faces X ps\<rparr>"

text \<open>A failed \<^verbatim>\<open>assert\<close> ends the program: the result is \<open>Inl AssertionFailed\<close>. The loop
  over the children of a list is \<open>addGeometry_children\<close>.\<close>

fun addGeometry :: "externals \<Rightarrow> Geometry \<Rightarrow> CGALRenderer \<Rightarrow> error + CGALRenderer"
  and addGeometry_children ::
    "externals \<Rightarrow> (nat \<times> Geometry) list \<Rightarrow> CGALRenderer \<Rightarrow> error + CGALRenderer" where
  "addGeometry X (GeometryList children) r = addGeometry_children X children r"
| "addGeometry X (PolySetGeometry ps) r =
     (if ps_dimension ps = 3
      then Inr (r\<lparr>polysets := polysets r @ [ps_tri X ps]\<rparr>)
      else Inl AssertionFailed)"
| "addGeometry X (Polygon2dGeometry poly) r =
     Inr (r\<lparr>polysets := polysets r @ [Polygon2d_tessellate X poly]\<rparr>)"
| "addGeometry X (NefGeometry new_N) r =
     (if nef_dimension new_N = 3
      then (if \<not> nef_isEmpty new_N
            then Inr (r\<lparr>nefPolyhedrons := nefPolyhedrons r @ [new_N]\<rparr>)
            else Inr r)
      else Inl AssertionFailed)"
| "addGeometry X OtherGeometry r = Inr r"
| "addGeometry_children X [] r = Inr r"
| "addGeometry_children X (item # items) r =
     (case addGeometry X (snd item) r of
        Inl e \<Rightarrow> Inl e
      | Inr r' \<Rightarrow> addGeometry_children X items r')"

text \<open>The constructor. The base class \<^verbatim>\<open>Renderer\<close> has set up \<open>colormap\<close> and
  \<open>colorscheme\<close> before (its constructor is outside this file: \<open>cm0\<close>, \<open>cs0\<close>); \<open>vxo\<close> is
  what \<^verbatim>\<open>Feature::ExperimentalVxORenderers.is_enabled()\<close> returns at that moment. Here and
  below the global flag is the argument \<open>vxo\<close> of every method that reads it.\<close>

definition CGALRenderer_new ::
  "externals \<Rightarrow> (ColorMode \<Rightarrow> Color4f) \<Rightarrow> ColorScheme \<Rightarrow> bool \<Rightarrow> Geometry \<Rightarrow> error + CGALRenderer" where
  "CGALRenderer_new X cm0 cs0 vxo geom =
     addGeometry X geom
       \<lparr>polysets = [], nefPolyhedrons = [], polyhedrons = [], last_render_state = vxo,
        polyset_vbo = 0, polyset_states = [], colormap = cm0, colorscheme = cs0,
        debug_trace = []\<rparr>"

subsection \<open>The polyhedron cache\<close>

text \<open>\<^verbatim>\<open>new CGAL_OGL_Polyhedron(*colorscheme)\<close> or \<^verbatim>\<open>new CGAL_OGL_VBOPolyhedron(...)\<close>,
  converted from \<^verbatim>\<open>*N->p3\<close> and initialised. The style a new polyhedron starts with is set
  outside this file (taken as \<open>SNC_BOUNDARY\<close>); \<^verbatim>\<open>draw\<close> sets the style before every use.\<close>

definition new_polyhedron :: "bool \<Rightarrow> ColorScheme \<Rightarrow> CGAL_Nef_polyhedron \<Rightarrow> CGAL_OGL_Polyhedron" where
  "new_polyhedron as_vbo cs N =
     \<lparr>ogl_is_VBO = as_vbo, ogl_colorscheme = cs, ogl_converted_from = N,
      ogl_initialized = True, ogl_style = SNC_BOUNDARY\<rparr>"

definition push_polyhedron :: "bool \<Rightarrow> CGAL_Nef_polyhedron \<Rightarrow> CGALRenderer \<Rightarrow> CGALRenderer" where
  "push_polyhedron as_vbo N r =
     r\<lparr>polyhedrons := polyhedrons r @ [new_polyhedron as_vbo (colorscheme r) N]\<rparr>"

definition buildPolyhedrons :: "bool \<Rightarrow> CGALRenderer \<Rightarrow> CGALRenderer" where
  "buildPolyhedrons vxo r =
     (let r1 = PRINTD ''buildPolyhedrons'' r;
          r2 = (if \<not> vxo
                then fold (push_polyhedron False) (nefPolyhedrons r1) (r1\<lparr>polyhedrons := []\<rparr>)
                else fold (push_polyhedron True) (nefPolyhedrons r1) (r1\<lparr>polyhedrons := []\<rparr>))
      in PRINTD ''buildPolyhedrons() end'' r2)"

text \<open>\<^verbatim>\<open>getPolyhedrons\<close> returns a reference to the member \<open>polyhedrons\<close>: the result is
  the renderer, from which the caller reads the list.\<close>

definition getPolyhedrons :: "bool \<Rightarrow> CGALRenderer \<Rightarrow> CGALRenderer" where
  "getPolyhedrons vxo r =
     (if nefPolyhedrons r \<noteq> [] \<and> (polyhedrons r = [] \<or> vxo \<noteq> last_render_state r)
      then buildPolyhedrons vxo r
      else r)"

subsection \<open>setColorScheme\<close>

definition setColorScheme :: "externals \<Rightarrow> ColorScheme \<Rightarrow> CGALRenderer \<Rightarrow> CGALRenderer" where
  "setColorScheme X cs r =
     (let r1 = PRINTD ''setColorScheme'' r;
          r2 = r1\<lparr>colormap := Renderer_setColorScheme X cs (colormap r1), colorscheme := cs\<rparr>;
          r3 = r2\<lparr>colormap := (colormap r2)
                  (CGAL_FACE_2D_COLOR := ColorMap_getColor X cs RC_CGAL_FACE_2D_COLOR)\<rparr>;
          r4 = r3\<lparr>colormap := (colormap r3)
                  (CGAL_EDGE_2D_COLOR := ColorMap_getColor X cs RC_CGAL_EDGE_2D_COLOR)\<rparr>;
          r5 = r4\<lparr>polyhedrons := []\<rparr>
      in PRINTD ''setColorScheme done'' r5)"

subsection \<open>createPolysets\<close>

text \<open>Modelled from the spec: \<^verbatim>\<open>Renderer::getColor(mode, color)\<close> is not in this file. The
  spec has the colours as "an external key to color table", a lookup \<open>color(mode)\<close>; the
  three modes used here are always present.\<close>

definition getColor :: "CGALRenderer \<Rightarrow> ColorMode \<Rightarrow> Color4f" where
  "getColor r mode = colormap r mode"

definition emplace_back :: "VertexState list \<Rightarrow> CGALRenderer \<Rightarrow> CGALRenderer" where
  "emplace_back states r = r\<lparr>polyset_states := polyset_states r @ map Some states\<rparr>"

text \<open>The three states \<^verbatim>\<open>createPolysets\<close> builds itself for a 2D polygon set.\<close>

definition init_state :: VertexState where
  "init_state = new_VertexState\<lparr>vs_glEnd := [GlDisable GL_LIGHTING]\<rparr>"

definition edge_state :: VertexState where
  "edge_state = new_VertexState\<lparr>vs_glBegin := [GlDisable GL_DEPTH_TEST, GlLineWidth 2]\<rparr>"

definition end_state :: VertexState where
  "end_state = new_VertexState\<lparr>vs_glBegin := [GlEnable GL_DEPTH_TEST]\<rparr>"

text \<open>One round of the loop over \<open>polysets\<close>. The vertex array was constructed on
  \<open>polyset_states\<close>, so the states the helpers create are appended to that member.\<close>

definition createPolysets_polyset :: "externals \<Rightarrow> PolySet \<Rightarrow> CGALRenderer \<Rightarrow> CGALRenderer" where
  "createPolysets_polyset X polyset r =
     (let r = PRINTD ''polysets'' r in
      if ps_dimension polyset = 2 then
        (let r = PRINTD ''2d polysets'' r;
             r = emplace_back [init_state] r;
             r = emplace_back (create_polygons X polyset CSGMODE_NONE (getColor r CGAL_FACE_2D_COLOR)) r;
             r = emplace_back [edge_state] r;
             r = emplace_back (create_edges X polyset CSGMODE_NONE (getColor r CGAL_EDGE_2D_COLOR)) r
         in emplace_back [end_state] r)
      else
        (let r = PRINTD ''3d polysets'' r
         in emplace_back (create_surface X polyset CSGMODE_NORMAL (getColor r MATERIAL)) r))"

definition createPolysets :: "externals \<Rightarrow> CGALRenderer \<times> GLcontext \<Rightarrow> CGALRenderer \<times> GLcontext" where
  "createPolysets X w =
     (let r = PRINTD ''createPolysets() polyset'' (fst w);
          g = snd w;
          r = r\<lparr>polyset_states := []\<rparr>;
          r = fold (createPolysets_polyset X) (polysets r) r
      in if polysets r \<noteq> []
         then (let r = r\<lparr>polyset_vbo := gl_next_buffer g\<rparr>;
                   g = emit (GL (GlGenBuffers (polyset_vbo r))) g
               in (r, emit (CreateInterleavedVBO (polyset_vbo r)) g))
         else (r, g))"

subsection \<open>draw\<close>

text \<open>Modelled from the spec: \<^verbatim>\<open>Renderer::setColor(mode)\<close> is not in this file. The spec has
  the legacy path "select face color", "select edge color", "select material color": the
  call is recorded with the colour the colormap holds for the mode.\<close>

definition setColor :: "CGALRenderer \<Rightarrow> ColorMode \<Rightarrow> event" where
  "setColor r mode = SetColor mode (colormap r mode)"

fun polygon_calls :: "Polygon \<Rightarrow> event list" where
  "polygon_calls polygon =
     [GL GlBeginPolygon] @ map (\<lambda>p. GL (GlVertex3d (fst p) (fst (snd p)) 0)) polygon @ [GL GlEnd]"

text \<open>The legacy path, one round of the loop over \<open>polysets\<close>.\<close>

definition draw_polyset :: "PolySet \<Rightarrow> CGALRenderer \<times> GLcontext \<Rightarrow> CGALRenderer \<times> GLcontext" where
  "draw_polyset polyset w =
     (let r = PRINTD ''draw() polyset'' (fst w);
          g = snd w
      in if ps_dimension polyset = 2 then
           (let g = emit (GL (GlDisable GL_LIGHTING)) g;
                g = emit (setColor r CGAL_FACE_2D_COLOR) g;
                g = emits (concat (map polygon_calls (ps_polygons polyset))) g;
                g = emit (GL (GlDisable GL_DEPTH_TEST)) g;
                g = emit (GL (GlLineWidth 2)) g;
                g = emit (setColor r CGAL_EDGE_2D_COLOR) g;
                g = emit (RenderEdges polyset CSGMODE_NONE) g
            in (r, emit (GL (GlEnable GL_DEPTH_TEST)) g))
         else
           (let g = emit (setColor r MATERIAL) g
            in (r, emit (RenderSurface polyset CSGMODE_NORMAL) g)))"

definition draw_state :: "VertexState option \<Rightarrow> GLcontext \<Rightarrow> GLcontext" where
  "draw_state polyset g = (case polyset of None \<Rightarrow> g | Some vs \<Rightarrow> drawArrays vs g)"

text \<open>The buffered path: the \<^verbatim>\<open>else\<close> branch of \<^verbatim>\<open>draw\<close>.\<close>

definition draw_vxo :: "externals \<Rightarrow> CGALRenderer \<times> GLcontext \<Rightarrow> CGALRenderer \<times> GLcontext" where
  "draw_vxo X w =
     (let w = (PRINTD ''product_vertex_sets.size = %d'' (fst w), snd w);
          w = (if polyset_states (fst w) = [] then createPolysets X w else w);
          r = fst w;
          g = snd w;
          origVertexArrayState = gl_enabled g GL_VERTEX_ARRAY;
          origNormalArrayState = gl_enabled g GL_NORMAL_ARRAY;
          origColorArrayState = gl_enabled g GL_COLOR_ARRAY;
          current_point_size = gl_point_size g;
          current_line_width = gl_line_width g;
          g = emit (GL (GlBindBuffer (polyset_vbo r))) g;
          g = fold draw_state (polyset_states r) g;
          g = emit (GL (GlBindBuffer 0)) g;
          g = emit (GL (GlPointSize current_point_size)) g;
          g = emit (GL (GlLineWidth current_line_width)) g;
          g = (if \<not> origVertexArrayState then emit (GL (GlDisableClientState GL_VERTEX_ARRAY)) g else g);
          g = (if \<not> origNormalArrayState then emit (GL (GlDisableClientState GL_NORMAL_ARRAY)) g else g);
          g = (if \<not> origColorArrayState then emit (GL (GlDisableClientState GL_COLOR_ARRAY)) g else g)
      in (r, g))"

definition set_style :: "SNC_style \<Rightarrow> CGAL_OGL_Polyhedron \<Rightarrow> CGAL_OGL_Polyhedron" where
  "set_style st p = p\<lparr>ogl_style := st\<rparr>"

text \<open>The loop over the cached polyhedrons. The list holds shared pointers: \<^verbatim>\<open>set_style\<close>
  changes the object in the list. \<open>seen\<close> are the entries already visited, as they are now.\<close>

fun draw_polyhedrons ::
  "bool \<Rightarrow> bool \<Rightarrow> bool \<Rightarrow> CGAL_OGL_Polyhedron list \<Rightarrow> CGAL_OGL_Polyhedron list \<Rightarrow>
   CGALRenderer \<times> GLcontext \<Rightarrow> CGALRenderer \<times> GLcontext" where
  "draw_polyhedrons vxo showfaces showedges seen [] w = w"
| "draw_polyhedrons vxo showfaces showedges seen (p # rest) w =
     (let r = (fst w)\<lparr>last_render_state := vxo\<rparr>;
          p' = (if showfaces then set_style SNC_BOUNDARY p else set_style SNC_SKELETON p);
          r = r\<lparr>polyhedrons := seen @ p' # rest\<rparr>;
          g = emit (PolyhedronDraw p' (showfaces \<and> showedges)) (snd w)
      in draw_polyhedrons vxo showfaces showedges (seen @ [p']) rest (r, g))"

text \<open>The first part of \<^verbatim>\<open>draw\<close>: the polygon sets, on the path the flag selects.\<close>

definition draw_polysets ::
  "externals \<Rightarrow> bool \<Rightarrow> CGALRenderer \<times> GLcontext \<Rightarrow> CGALRenderer \<times> GLcontext" where
  "draw_polysets X vxo w =
     (if \<not> vxo then fold draw_polyset (polysets (fst w)) w else draw_vxo X w)"

definition draw ::
  "externals \<Rightarrow> bool \<Rightarrow> bool \<Rightarrow> bool \<Rightarrow> CGALRenderer \<times> GLcontext \<Rightarrow> CGALRenderer \<times> GLcontext" where
  "draw X vxo showfaces showedges w =
     (let w = (PRINTD ''draw()'' (fst w), snd w);
          w = draw_polysets X vxo w;
          r = getPolyhedrons vxo (fst w);
          w = draw_polyhedrons vxo showfaces showedges [] (polyhedrons r) (r, snd w)
      in (PRINTD ''draw() end'' (fst w), snd w))"

subsection \<open>getBoundingBox\<close>

definition getBoundingBox :: "externals \<Rightarrow> bool \<Rightarrow> CGALRenderer \<Rightarrow> CGALRenderer \<times> BoundingBox" where
  "getBoundingBox X vxo r =
     (let r = getPolyhedrons vxo r;
          bbox = EmptyBox;
          bbox = fold (\<lambda>p bbox. bbox_extend bbox (Box (fst (Polyhedron_bbox X p)) (snd (Polyhedron_bbox X p))))
                   (polyhedrons r) bbox;
          bbox = fold (\<lambda>ps bbox. bbox_extend bbox (PolySet_getBoundingBox X ps)) (polysets r) bbox
      in (r, bbox))"

subsection \<open>A renderer in use\<close>

text \<open>The public methods, each with the value the global flag has when it is called.\<close>

datatype call = Draw bool bool bool | SetColorScheme ColorScheme | GetBoundingBox bool

fun do_call :: "externals \<Rightarrow> call \<Rightarrow> CGALRenderer \<times> GLcontext \<Rightarrow> CGALRenderer \<times> GLcontext" where
  "do_call X (Draw vxo showfaces showedges) w = draw X vxo showfaces showedges w"
| "do_call X (SetColorScheme cs) w = (setColorScheme X cs (fst w), snd w)"
| "do_call X (GetBoundingBox vxo) w = (fst (getBoundingBox X vxo (fst w)), snd w)"

definition run :: "externals \<Rightarrow> call list \<Rightarrow> CGALRenderer \<times> GLcontext \<Rightarrow> CGALRenderer \<times> GLcontext" where
  "run X calls w = fold (do_call X) calls w"

section \<open>Notions the properties are stated with\<close>

text \<open>How often the cache was rebuilt: \<^verbatim>\<open>buildPolyhedrons\<close> announces itself with
  \<^verbatim>\<open>PRINTD("buildPolyhedrons")\<close>, and nothing else prints that message.\<close>

definition rebuilds :: "CGALRenderer \<Rightarrow> nat" where
  "rebuilds r = count_list (debug_trace r) ''buildPolyhedrons''"

text \<open>The leaves of a geometry, depth first in child order, and what the spec says is
  retained of them: the tessellated polygon sets, and the boundary polyhedra that are not
  empty.\<close>

fun leaves :: "Geometry \<Rightarrow> Geometry list"
  and leaves_children :: "(nat \<times> Geometry) list \<Rightarrow> Geometry list" where
  "leaves (GeometryList children) = leaves_children children"
| "leaves (PolySetGeometry ps) = [PolySetGeometry ps]"
| "leaves (Polygon2dGeometry poly) = [Polygon2dGeometry poly]"
| "leaves (NefGeometry N) = [NefGeometry N]"
| "leaves OtherGeometry = [OtherGeometry]"
| "leaves_children [] = []"
| "leaves_children (item # items) = leaves (snd item) @ leaves_children items"

fun leaf_polysets :: "externals \<Rightarrow> Geometry \<Rightarrow> PolySet list" where
  "leaf_polysets X (PolySetGeometry ps) = [ps_tri X ps]"
| "leaf_polysets X (Polygon2dGeometry poly) = [Polygon2d_tessellate X poly]"
| "leaf_polysets X g = []"

fun leaf_polyhedra :: "Geometry \<Rightarrow> CGAL_Nef_polyhedron list" where
  "leaf_polyhedra (NefGeometry N) = (if nef_isEmpty N then [] else [N])"
| "leaf_polyhedra g = []"

fun leaf_dimension_ok :: "Geometry \<Rightarrow> bool" where
  "leaf_dimension_ok (PolySetGeometry ps) = (ps_dimension ps = 3)"
| "leaf_dimension_ok (NefGeometry N) = (nef_dimension N = 3)"
| "leaf_dimension_ok g = True"

definition flattened_polysets :: "externals \<Rightarrow> Geometry \<Rightarrow> PolySet list" where
  "flattened_polysets X geom = concat (map (leaf_polysets X) (leaves geom))"

definition flattened_polyhedra :: "Geometry \<Rightarrow> CGAL_Nef_polyhedron list" where
  "flattened_polyhedra geom = concat (map leaf_polyhedra (leaves geom))"

definition dimensions_ok :: "Geometry \<Rightarrow> bool" where
  "dimensions_ok geom = list_all leaf_dimension_ok (leaves geom)"

text \<open>The union of a list of boxes.\<close>

fun bbox_union :: "BoundingBox list \<Rightarrow> BoundingBox" where
  "bbox_union [] = EmptyBox"
| "bbox_union (b # bs) = bbox_extend b (bbox_union bs)"

text \<open>One box holds another. The union is the least box that holds every box of the list
  (\<open>bbox_union_upper\<close>, \<open>bbox_union_least\<close>).\<close>

fun vec_le :: "Vector3d \<Rightarrow> Vector3d \<Rightarrow> bool" where
  "vec_le (x, y, z) (x', y', z') = (x \<le> x' \<and> y \<le> y' \<and> z \<le> z')"

fun bbox_contains :: "BoundingBox \<Rightarrow> BoundingBox \<Rightarrow> bool" where
  "bbox_contains b EmptyBox = True"
| "bbox_contains EmptyBox (Box lo hi) = False"
| "bbox_contains (Box lo hi) (Box lo' hi') = (vec_le lo lo' \<and> vec_le hi' hi)"

definition polyhedron_box :: "externals \<Rightarrow> CGAL_OGL_Polyhedron \<Rightarrow> BoundingBox" where
  "polyhedron_box X p = Box (fst (Polyhedron_bbox X p)) (snd (Polyhedron_bbox X p))"


text \<open>What drawing a list of vertex states issues.\<close>

definition state_calls :: "VertexState \<Rightarrow> event list" where
  "state_calls vs =
     map GL (vs_glBegin vs) @ [GL (GlDrawArrays (vs_vertices vs))] @ map GL (vs_glEnd vs)"

definition segment_calls :: "VertexState option list \<Rightarrow> event list" where
  "segment_calls states =
     concat (map (\<lambda>s. case s of None \<Rightarrow> [] | Some vs \<Rightarrow> state_calls vs) states)"

text \<open>Two renderers agree on the members that \<^verbatim>\<open>createPolysets\<close> and the polygon-set
  part of \<^verbatim>\<open>draw\<close> never write.\<close>

definition same_members :: "CGALRenderer \<Rightarrow> CGALRenderer \<Rightarrow> bool" where
  "same_members r r' =
     (polysets r' = polysets r \<and> nefPolyhedrons r' = nefPolyhedrons r
      \<and> polyhedrons r' = polyhedrons r \<and> last_render_state r' = last_render_state r
      \<and> colormap r' = colormap r \<and> colorscheme r' = colorscheme r)"

text \<open>The vertex states of one polygon set under a colormap, in the order of emission.\<close>

definition polyset_segments :: "externals \<Rightarrow> (ColorMode \<Rightarrow> Color4f) \<Rightarrow> PolySet \<Rightarrow> VertexState list" where
  "polyset_segments X cm ps =
     (if ps_dimension ps = 2
      then [init_state] @ create_polygons X ps CSGMODE_NONE (cm CGAL_FACE_2D_COLOR)
           @ [edge_state] @ create_edges X ps CSGMODE_NONE (cm CGAL_EDGE_2D_COLOR)
           @ [end_state]
      else create_surface X ps CSGMODE_NORMAL (cm MATERIAL))"





text \<open>The renderer and context the buffered path takes its snapshot of and draws from: the
  start of \<^verbatim>\<open>draw\<close>'s \<^verbatim>\<open>else\<close> branch, up to the call of \<^verbatim>\<open>createPolysets\<close>.\<close>

definition prepared :: "externals \<Rightarrow> CGALRenderer \<times> GLcontext \<Rightarrow> CGALRenderer \<times> GLcontext" where
  "prepared X w =
     (let w = (PRINTD ''product_vertex_sets.size = %d'' (fst w), snd w)
      in if polyset_states (fst w) = [] then createPolysets X w else w)"

text \<open>The calls that end the buffered path, for the context \<open>g\<close> the snapshot was taken of.\<close>

definition restore_calls :: "GLcontext \<Rightarrow> event list" where
  "restore_calls g =
     [GL (GlPointSize (gl_point_size g)), GL (GlLineWidth (gl_line_width g))]
     @ (if \<not> gl_enabled g GL_VERTEX_ARRAY then [GL (GlDisableClientState GL_VERTEX_ARRAY)] else [])
     @ (if \<not> gl_enabled g GL_NORMAL_ARRAY then [GL (GlDisableClientState GL_NORMAL_ARRAY)] else [])
     @ (if \<not> gl_enabled g GL_COLOR_ARRAY then [GL (GlDisableClientState GL_COLOR_ARRAY)] else [])"

section \<open>Concrete inputs\<close>

text \<open>Simple collaborators: tessellation keeps the faces (a 2D outline becomes one face at
  height 0); a scheme's colours are told apart by the scheme's number; the base class sets
  the material colour; each helper creates one vertex state holding the set's points in the
  given colour, and \<open>create_surface\<close>'s state switches the three attribute arrays on before
  its draw call; a set's box is the box of its points.\<close>

definition scheme_color :: "ColorScheme \<Rightarrow> RenderColor \<Rightarrow> Color4f" where
  "scheme_color cs rc =
     (case rc of
        RC_CGAL_FACE_2D_COLOR \<Rightarrow> Color4f (real cs) 1 0 1
      | RC_CGAL_EDGE_2D_COLOR \<Rightarrow> Color4f (real cs) 0 1 1
      | OtherRenderColor n \<Rightarrow> Color4f (real cs) (real n) 0 1)"

definition colored_points :: "PolySet \<Rightarrow> Color4f \<Rightarrow> vertex list" where
  "colored_points ps c = map (\<lambda>p. (p, None, c)) (concat (ps_polygons ps))"

definition X0 :: externals where
  "X0 = \<lparr>tessellate_faces = ps_polygons,
         Polygon2d_tessellate = (\<lambda>poly.
           \<lparr>ps_dimension = 2, ps_convex = None, ps_convexity = 1,
            ps_polygons = map (map (\<lambda>p. (fst p, snd p, 0))) poly\<rparr>),
         ColorMap_getColor = scheme_color,
         Renderer_setColorScheme = (\<lambda>cs cm. cm(MATERIAL := scheme_color cs (OtherRenderColor 0))),
         create_polygons = (\<lambda>ps m c. [new_VertexState\<lparr>vs_vertices := colored_points ps c\<rparr>]),
         create_edges = (\<lambda>ps m c. [new_VertexState\<lparr>vs_vertices := colored_points ps c\<rparr>]),
         create_surface = (\<lambda>ps m c.
           [\<lparr>vs_glBegin = [GlEnableClientState GL_VERTEX_ARRAY,
                           GlEnableClientState GL_NORMAL_ARRAY,
                           GlEnableClientState GL_COLOR_ARRAY],
             vs_vertices = colored_points ps c,
             vs_glEnd = []\<rparr>]),
         PolySet_getBoundingBox = (\<lambda>ps. bbox_union (map (\<lambda>p. Box p p) (concat (ps_polygons ps)))),
         Polyhedron_bbox = (\<lambda>p. ((0, 0, 0), (real (nef_p3 (ogl_converted_from p)), 1, 1)))\<rparr>"

definition cm0 :: "ColorMode \<Rightarrow> Color4f" where
  "cm0 mode =
     (case mode of
        MATERIAL \<Rightarrow> scheme_color 0 (OtherRenderColor 0)
      | CGAL_FACE_2D_COLOR \<Rightarrow> scheme_color 0 RC_CGAL_FACE_2D_COLOR
      | CGAL_EDGE_2D_COLOR \<Rightarrow> scheme_color 0 RC_CGAL_EDGE_2D_COLOR
      | OtherColorMode n \<Rightarrow> Color4f 0 0 0 1)"

definition gl0 :: GLcontext where
  "gl0 = \<lparr>gl_enabled = (\<lambda>c. c = GL_LIGHTING \<or> c = GL_DEPTH_TEST), gl_point_size = 1,
          gl_line_width = 1, gl_array_buffer = 0, gl_next_buffer = 1, gl_issued = []\<rparr>"

definition square :: Polygon2d where
  "square = [[(0, 0), (1, 0), (1, 1), (0, 1)]]"

definition triangle3d :: PolySet where
  "triangle3d = \<lparr>ps_dimension = 3, ps_convex = Some True, ps_convexity = 1,
                 ps_polygons = [[(0, 0, 0), (2, 0, 0), (0, 3, 5)]]\<rparr>"

definition flat_polyset :: PolySet where
  "flat_polyset = \<lparr>ps_dimension = 2, ps_convex = Some True, ps_convexity = 1,
                   ps_polygons = [[(0, 0, 0), (1, 0, 0), (0, 1, 0)]]\<rparr>"

definition solid :: CGAL_Nef_polyhedron where
  "solid = \<lparr>nef_dimension = 3, nef_isEmpty = False, nef_p3 = 7\<rparr>"

definition empty_solid :: CGAL_Nef_polyhedron where
  "empty_solid = \<lparr>nef_dimension = 3, nef_isEmpty = True, nef_p3 = 0\<rparr>"

definition nested :: Geometry where
  "nested = GeometryList
     [(1, PolySetGeometry triangle3d),
      (2, GeometryList [(3, NefGeometry empty_solid), (4, Polygon2dGeometry square),
                        (5, GeometryList [(6, NefGeometry solid)]), (7, OtherGeometry)]),
      (8, NefGeometry solid)]"

definition blank :: CGALRenderer where
  "blank = \<lparr>polysets = [], nefPolyhedrons = [], polyhedrons = [], last_render_state = False,
            polyset_vbo = 0, polyset_states = [], colormap = cm0, colorscheme = 0,
            debug_trace = []\<rparr>"

definition square_renderer :: CGALRenderer where
  "square_renderer =
     blank\<lparr>polysets := [Polygon2d_tessellate X0 square], last_render_state := True\<rparr>"

definition recolored :: "CGALRenderer \<times> GLcontext" where
  "recolored = run X0 [Draw True True True, SetColorScheme 1] (square_renderer, gl0)"

definition triangle_renderer :: CGALRenderer where
  "triangle_renderer = blank\<lparr>polysets := [triangle3d], last_render_state := True\<rparr>"


definition one_solid :: CGALRenderer where
  "one_solid = blank\<lparr>nefPolyhedrons := [solid]\<rparr>"

definition square_drawn :: "CGALRenderer \<times> GLcontext" where
  "square_drawn = draw X0 True True True (square_renderer, gl0)"

section \<open>The polyhedron cache\<close>

lemma PRINTD_fields:
  "polysets (PRINTD msg r) = polysets r"
  "nefPolyhedrons (PRINTD msg r) = nefPolyhedrons r"
  "polyhedrons (PRINTD msg r) = polyhedrons r"
  "last_render_state (PRINTD msg r) = last_render_state r"
  "polyset_states (PRINTD msg r) = polyset_states r"
  "polyset_vbo (PRINTD msg r) = polyset_vbo r"
  "colormap (PRINTD msg r) = colormap r"
  "colorscheme (PRINTD msg r) = colorscheme r"
  by (simp_all add: PRINTD_def)

lemma fold_push_polyhedron:
  "fold (push_polyhedron b) Ns r =
     r\<lparr>polyhedrons := polyhedrons r @ map (new_polyhedron b (colorscheme r)) Ns\<rparr>"
  by (induction Ns arbitrary: r) (simp_all add: push_polyhedron_def)

lemma buildPolyhedrons_eq:
  "buildPolyhedrons vxo r =
     r\<lparr>polyhedrons := map (new_polyhedron vxo (colorscheme r)) (nefPolyhedrons r),
       debug_trace := debug_trace r @ [''buildPolyhedrons'', ''buildPolyhedrons() end'']\<rparr>"
  by (cases vxo) (simp_all add: buildPolyhedrons_def PRINTD_def fold_push_polyhedron)

lemma rebuilds_buildPolyhedrons: "rebuilds (buildPolyhedrons vxo r) = Suc (rebuilds r)"
  by (simp add: buildPolyhedrons_eq rebuilds_def)

lemma getPolyhedrons_last: "last_render_state (getPolyhedrons vxo r) = last_render_state r"
  by (simp add: getPolyhedrons_def buildPolyhedrons_eq)

lemma getPolyhedrons_nef: "nefPolyhedrons (getPolyhedrons vxo r) = nefPolyhedrons r"
  by (simp add: getPolyhedrons_def buildPolyhedrons_eq)

lemma getPolyhedrons_polysets: "polysets (getPolyhedrons vxo r) = polysets r"
  by (simp add: getPolyhedrons_def buildPolyhedrons_eq)

lemma getPolyhedrons_nothing: "nefPolyhedrons r = [] \<Longrightarrow> getPolyhedrons vxo r = r"
  by (simp add: getPolyhedrons_def)

text \<open>C1. \<^verbatim>\<open>getPolyhedrons\<close> rebuilds the cache exactly when the retained polyhedron list is
  not empty and the cache is empty or the flag differs from \<open>last_render_state\<close>: then the
  rebuild count grows by one and the cache is the conversion of the retained list; otherwise
  the renderer, its cache included, is returned as it was.\<close>

theorem getPolyhedrons_rebuilds_iff:
  "rebuilds (getPolyhedrons vxo r) =
     rebuilds r + (if nefPolyhedrons r \<noteq> [] \<and> (polyhedrons r = [] \<or> vxo \<noteq> last_render_state r)
                   then 1 else 0)
   \<and> (if nefPolyhedrons r \<noteq> [] \<and> (polyhedrons r = [] \<or> vxo \<noteq> last_render_state r)
      then getPolyhedrons vxo r = buildPolyhedrons vxo r
         \<and> polyhedrons (getPolyhedrons vxo r)
             = map (new_polyhedron vxo (colorscheme r)) (nefPolyhedrons r)
      else getPolyhedrons vxo r = r)"
proof (cases "nefPolyhedrons r \<noteq> [] \<and> (polyhedrons r = [] \<or> vxo \<noteq> last_render_state r)")
  case True
  then have e: "getPolyhedrons vxo r = buildPolyhedrons vxo r"
    by (simp add: getPolyhedrons_def)
  have "polyhedrons (buildPolyhedrons vxo r)
          = map (new_polyhedron vxo (colorscheme r)) (nefPolyhedrons r)"
    by (simp add: buildPolyhedrons_eq)
  with True e show ?thesis
    by (simp add: rebuilds_buildPolyhedrons)
next
  case False
  then have "getPolyhedrons vxo r = r"
    by (auto simp add: getPolyhedrons_def)
  with False show ?thesis by auto
qed

theorem getPolyhedrons_rebuilds_iff_witness:
  "rebuilds (getPolyhedrons False one_solid) = 1
   \<and> polyhedrons (getPolyhedrons False one_solid) = [new_polyhedron False 0 solid]
   \<and> getPolyhedrons False (one_solid\<lparr>polyhedrons := [new_polyhedron False 0 solid]\<rparr>)
       = one_solid\<lparr>polyhedrons := [new_polyhedron False 0 solid]\<rparr>"
  using getPolyhedrons_rebuilds_iff [of False one_solid]
    getPolyhedrons_rebuilds_iff [of False "one_solid\<lparr>polyhedrons := [new_polyhedron False 0 solid]\<rparr>"]
  by (simp add: one_solid_def blank_def rebuilds_def getPolyhedrons_def buildPolyhedrons_eq)

text \<open>C2, as the claim states it, fails: \<^verbatim>\<open>buildPolyhedrons\<close> does not write
  \<open>last_render_state\<close>. A renderer constructed with the flag off around one solid, and then
  asked twice for its polyhedrons with the flag on (nothing in between), rebuilds twice, and
  after a rebuild under the flag \<open>True\<close> the recorded value is still \<open>False\<close>.\<close>

theorem getPolyhedrons_rebuilds_twice:
  "CGALRenderer_new X0 cm0 0 False (NefGeometry solid) = Inr one_solid
   \<and> rebuilds one_solid = 0
   \<and> rebuilds (getPolyhedrons True one_solid) = 1
   \<and> rebuilds (getPolyhedrons True (getPolyhedrons True one_solid)) = 2
   \<and> last_render_state (buildPolyhedrons True one_solid) = False"
  by (simp add: CGALRenderer_new_def one_solid_def blank_def solid_def rebuilds_def
      getPolyhedrons_def buildPolyhedrons_eq)

text \<open>C2, amended. \<^verbatim>\<open>getPolyhedrons\<close> leaves \<open>last_render_state\<close> as it is (only
  \<^verbatim>\<open>draw\<close> writes it). When the flag equals \<open>last_render_state\<close>, a second call with the
  same flag rebuilds nothing and returns the same renderer and cache; and when moreover the
  retained list is not empty, a second call with the flag toggled rebuilds exactly once and
  leaves a cache with one entry per retained polyhedron.\<close>

theorem getPolyhedrons_twice:
  "last_render_state (getPolyhedrons vxo r) = last_render_state r
   \<and> (vxo = last_render_state r \<longrightarrow>
        getPolyhedrons vxo (getPolyhedrons vxo r) = getPolyhedrons vxo r)
   \<and> (vxo = last_render_state r \<and> nefPolyhedrons r \<noteq> [] \<longrightarrow>
        rebuilds (getPolyhedrons (\<not> vxo) (getPolyhedrons vxo r)) = rebuilds (getPolyhedrons vxo r) + 1
      \<and> length (polyhedrons (getPolyhedrons (\<not> vxo) (getPolyhedrons vxo r)))
          = length (nefPolyhedrons r))"
proof (intro conjI impI)
  show "last_render_state (getPolyhedrons vxo r) = last_render_state r"
    by (rule getPolyhedrons_last)
next
  assume "vxo = last_render_state r"
  then show "getPolyhedrons vxo (getPolyhedrons vxo r) = getPolyhedrons vxo r"
    by (simp add: getPolyhedrons_def buildPolyhedrons_eq)
next
  assume a: "vxo = last_render_state r \<and> nefPolyhedrons r \<noteq> []"
  let ?r1 = "getPolyhedrons vxo r"
  have c: "nefPolyhedrons ?r1 \<noteq> [] \<and> (polyhedrons ?r1 = [] \<or> (\<not> vxo) \<noteq> last_render_state ?r1)"
    using a by (simp add: getPolyhedrons_nef getPolyhedrons_last)
  then have e: "getPolyhedrons (\<not> vxo) ?r1 = buildPolyhedrons (\<not> vxo) ?r1"
    by (simp add: getPolyhedrons_def)
  show "rebuilds (getPolyhedrons (\<not> vxo) ?r1) = rebuilds ?r1 + 1"
    by (simp add: e rebuilds_buildPolyhedrons)
  show "length (polyhedrons (getPolyhedrons (\<not> vxo) ?r1)) = length (nefPolyhedrons r)"
    by (simp add: e buildPolyhedrons_eq getPolyhedrons_nef)
qed

theorem getPolyhedrons_twice_witness:
  "False = last_render_state one_solid \<and> nefPolyhedrons one_solid \<noteq> []
   \<and> getPolyhedrons False (getPolyhedrons False one_solid) = getPolyhedrons False one_solid
   \<and> rebuilds (getPolyhedrons False one_solid) = 1
   \<and> rebuilds (getPolyhedrons True (getPolyhedrons False one_solid)) = 2
   \<and> length (polyhedrons (getPolyhedrons True (getPolyhedrons False one_solid))) = 1"
proof -
  have h: "False = last_render_state one_solid \<and> nefPolyhedrons one_solid \<noteq> []"
    by (simp add: one_solid_def blank_def)
  have r1: "rebuilds (getPolyhedrons False one_solid) = 1"
    by (simp add: one_solid_def blank_def rebuilds_def getPolyhedrons_def buildPolyhedrons_eq)
  have n: "length (nefPolyhedrons one_solid) = 1"
    by (simp add: one_solid_def)
  show ?thesis
    using h r1 n getPolyhedrons_twice [of False one_solid] by simp
qed

section \<open>setColorScheme\<close>

lemma setColorScheme_cache: "polyhedrons (setColorScheme X cs r) = []"
  by (simp add: setColorScheme_def PRINTD_def Let_def)

lemma setColorScheme_colormap:
  "colormap (setColorScheme X cs r) =
     (Renderer_setColorScheme X cs (colormap r))
       (CGAL_FACE_2D_COLOR := ColorMap_getColor X cs RC_CGAL_FACE_2D_COLOR,
        CGAL_EDGE_2D_COLOR := ColorMap_getColor X cs RC_CGAL_EDGE_2D_COLOR)"
  by (simp add: setColorScheme_def PRINTD_def Let_def)

lemma setColorScheme_keeps:
  "polysets (setColorScheme X cs r) = polysets r"
  "nefPolyhedrons (setColorScheme X cs r) = nefPolyhedrons r"
  "last_render_state (setColorScheme X cs r) = last_render_state r"
  "polyset_states (setColorScheme X cs r) = polyset_states r"
  "polyset_vbo (setColorScheme X cs r) = polyset_vbo r"
  by (simp_all add: setColorScheme_def PRINTD_def Let_def)




section \<open>addGeometry\<close>

lemma addGeometry_result:
  "addGeometry X geom r =
     (if list_all leaf_dimension_ok (leaves geom)
      then Inr (r\<lparr>polysets := polysets r @ concat (map (leaf_polysets X) (leaves geom)),
                  nefPolyhedrons := nefPolyhedrons r @ concat (map leaf_polyhedra (leaves geom))\<rparr>)
      else Inl AssertionFailed)"
  and addGeometry_children_result:
  "addGeometry_children X children r =
     (if list_all leaf_dimension_ok (leaves_children children)
      then Inr (r\<lparr>polysets := polysets r @ concat (map (leaf_polysets X) (leaves_children children)),
                  nefPolyhedrons :=
                    nefPolyhedrons r @ concat (map leaf_polyhedra (leaves_children children))\<rparr>)
      else Inl AssertionFailed)"
proof (induction X geom r and X children r rule: addGeometry_addGeometry_children.induct)
  case (7 X item items r)
  show ?case
  proof (cases "list_all leaf_dimension_ok (leaves (snd item))")
    case True
    let ?r' = "r\<lparr>polysets := polysets r @ concat (map (leaf_polysets X) (leaves (snd item))),
                  nefPolyhedrons := nefPolyhedrons r @ concat (map leaf_polyhedra (leaves (snd item)))\<rparr>"
    have a: "addGeometry X (snd item) r = Inr ?r'"
      using True "7.IH"(1) by simp
    show ?thesis
      using True a "7.IH"(2) [OF a] by simp
  next
    case False
    then show ?thesis using "7.IH"(1) by simp
  qed
qed simp_all

lemma leaf_polyhedra_nonempty: "list_all (\<lambda>N. \<not> nef_isEmpty N) (concat (map leaf_polyhedra ls))"
proof (induction ls)
  case Nil
  then show ?case by simp
next
  case (Cons l ls)
  then show ?case by (cases l) simp_all
qed

text \<open>C3, as the claim states it, fails: a list holding a \<^verbatim>\<open>PolySet\<close> of dimension 2 has
  that set among its leaves, and \<^verbatim>\<open>addGeometry\<close> stops at \<^verbatim>\<open>assert(ps->getDimension() == 3)\<close>
  instead of retaining its tessellation.\<close>

theorem addGeometry_dimension_counterexample:
  "addGeometry X0 (GeometryList [(1, PolySetGeometry flat_polyset)]) blank = Inl AssertionFailed
   \<and> flattened_polysets X0 (GeometryList [(1, PolySetGeometry flat_polyset)]) = [ps_tri X0 flat_polyset]"
  by (simp add: flat_polyset_def flattened_polysets_def)

text \<open>C3, amended. For every geometry, of any nesting depth, whose \<^verbatim>\<open>PolySet\<close> and
  \<^verbatim>\<open>CGAL_Nef_polyhedron\<close> leaves all have dimension 3, \<^verbatim>\<open>addGeometry\<close> appends exactly the
  tessellated polygon-set leaves and the non-empty polyhedron leaves, depth first in child
  order; for any other geometry an assertion fails. No polyhedron with \<^verbatim>\<open>isEmpty()\<close> is
  among those appended.\<close>

theorem addGeometry_flattens:
  "addGeometry X geom r =
     (if dimensions_ok geom
      then Inr (r\<lparr>polysets := polysets r @ flattened_polysets X geom,
                  nefPolyhedrons := nefPolyhedrons r @ flattened_polyhedra geom\<rparr>)
      else Inl AssertionFailed)
   \<and> list_all (\<lambda>N. \<not> nef_isEmpty N) (flattened_polyhedra geom)"
  by (simp add: addGeometry_result dimensions_ok_def flattened_polysets_def
      flattened_polyhedra_def leaf_polyhedra_nonempty)

theorem addGeometry_flattens_witness:
  "dimensions_ok nested
   \<and> addGeometry X0 nested blank =
       Inr (blank\<lparr>polysets := [triangle3d, Polygon2d_tessellate X0 square],
                 nefPolyhedrons := [solid, solid]\<rparr>)"
  using addGeometry_flattens [of X0 nested blank]
  by (simp add: dimensions_ok_def flattened_polysets_def flattened_polyhedra_def nested_def
      triangle3d_def solid_def empty_solid_def blank_def ps_tri_def X0_def)

section \<open>createPolysets\<close>

lemma same_members_refl: "same_members r r"
  by (simp add: same_members_def)

lemma same_members_trans: "same_members a b \<Longrightarrow> same_members b c \<Longrightarrow> same_members a c"
  by (simp add: same_members_def)

lemma same_members_PRINTD: "same_members r (PRINTD msg r)"
  by (simp add: same_members_def PRINTD_def)

lemma createPolysets_polyset_members: "same_members r (createPolysets_polyset X ps r)"
  by (simp add: createPolysets_polyset_def Let_def same_members_def PRINTD_def emplace_back_def)

lemma createPolysets_polyset_states:
  "polyset_states (createPolysets_polyset X ps r) =
     polyset_states r @ map Some (polyset_segments X (colormap r) ps)"
  by (simp add: createPolysets_polyset_def Let_def PRINTD_def emplace_back_def
      polyset_segments_def getColor_def)

lemma fold_createPolysets_polyset:
  "same_members r (fold (createPolysets_polyset X) pss r)
   \<and> polyset_states (fold (createPolysets_polyset X) pss r) =
       polyset_states r @ map Some (concat (map (polyset_segments X (colormap r)) pss))"
proof (induction pss arbitrary: r)
  case Nil
  show ?case by (simp add: same_members_refl)
next
  case (Cons ps pss)
  let ?r1 = "createPolysets_polyset X ps r"
  have m: "same_members r ?r1" by (rule createPolysets_polyset_members)
  then have cm: "colormap ?r1 = colormap r" by (simp add: same_members_def)
  from Cons [of ?r1] m show ?case
    by (auto simp add: createPolysets_polyset_states cm intro: same_members_trans)
qed

lemma createPolysets_members: "same_members (fst w) (fst (createPolysets X w))"
proof -
  let ?r1 = "(PRINTD ''createPolysets() polyset'' (fst w))\<lparr>polyset_states := []\<rparr>"
  have a: "same_members (fst w) ?r1"
    by (simp add: same_members_def PRINTD_def)
  have b: "same_members ?r1 (fold (createPolysets_polyset X) (polysets ?r1) ?r1)"
    using fold_createPolysets_polyset by blast
  have c: "same_members (fst w) (fold (createPolysets_polyset X) (polysets ?r1) ?r1)"
    using a b by (rule same_members_trans)
  then show ?thesis
    by (simp add: createPolysets_def Let_def same_members_def)
qed

lemma createPolysets_states:
  "polyset_states (fst (createPolysets X w)) =
     map Some (concat (map (polyset_segments X (colormap (fst w))) (polysets (fst w))))"
proof -
  let ?r1 = "(PRINTD ''createPolysets() polyset'' (fst w))\<lparr>polyset_states := []\<rparr>"
  have "polyset_states (fold (createPolysets_polyset X) (polysets ?r1) ?r1) =
          polyset_states ?r1 @ map Some (concat (map (polyset_segments X (colormap ?r1)) (polysets ?r1)))"
    using fold_createPolysets_polyset by blast
  then show ?thesis
    by (simp add: createPolysets_def Let_def PRINTD_def)
qed

text \<open>C9. \<^verbatim>\<open>createPolysets\<close> clears \<open>polyset_states\<close> first: whatever the list held, it
  ends as the segments of the retained polygon sets under the current colormap, and a second
  call in succession leaves the same list as the first.\<close>

theorem createPolysets_idempotent:
  "polyset_states (fst (createPolysets X (createPolysets X w))) =
     polyset_states (fst (createPolysets X w))
   \<and> polyset_states (fst (createPolysets X w)) =
       map Some (concat (map (polyset_segments X (colormap (fst w))) (polysets (fst w))))"
proof -
  have "same_members (fst w) (fst (createPolysets X w))"
    by (rule createPolysets_members)
  then have "colormap (fst (createPolysets X w)) = colormap (fst w)"
    and "polysets (fst (createPolysets X w)) = polysets (fst w)"
    by (simp_all add: same_members_def)
  then show ?thesis
    by (simp add: createPolysets_states)
qed

section \<open>draw\<close>

lemma gl_issued_emit: "gl_issued (emit e g) = gl_issued g @ [e]"
  by (cases e) simp_all

lemma emits_Nil: "emits [] g = g"
  by (simp add: emits_def)

lemma emits_Cons: "emits (e # es) g = emits es (emit e g)"
  by (simp add: emits_def)

lemma gl_issued_emits: "gl_issued (emits es g) = gl_issued g @ es"
  by (induction es arbitrary: g) (simp_all add: emits_Nil emits_Cons gl_issued_emit)

lemma draw_polyset_members: "same_members (fst w) (fst (draw_polyset ps w))"
  by (simp add: draw_polyset_def Let_def same_members_def PRINTD_def)

lemma fold_draw_polyset_members: "same_members (fst w) (fst (fold draw_polyset pss w))"
proof (induction pss arbitrary: w)
  case Nil
  show ?case by (simp add: same_members_refl)
next
  case (Cons ps pss)
  have "same_members (fst w) (fst (draw_polyset ps w))" by (rule draw_polyset_members)
  with Cons [of "draw_polyset ps w"] show ?case
    by (auto intro: same_members_trans)
qed

lemma draw_vxo_members: "same_members (fst w) (fst (draw_vxo X w))"
proof -
  let ?w1 = "(PRINTD ''product_vertex_sets.size = %d'' (fst w), snd w)"
  have a: "same_members (fst w) (fst ?w1)" by (simp add: same_members_PRINTD)
  have b: "same_members (fst ?w1) (fst (createPolysets X ?w1))" by (rule createPolysets_members)
  have "same_members (fst w) (fst (if polyset_states (fst ?w1) = [] then createPolysets X ?w1 else ?w1))"
    using a same_members_trans [OF a b] by simp
  then show ?thesis
    by (simp add: draw_vxo_def Let_def)
qed

lemma draw_polysets_members: "same_members (fst w) (fst (draw_polysets X vxo w))"
  by (simp add: draw_polysets_def fold_draw_polyset_members draw_vxo_members)

lemma getPolyhedrons_same_members:
  "same_members r r' \<Longrightarrow>
     polyhedrons (getPolyhedrons vxo r') = polyhedrons (getPolyhedrons vxo r)"
  by (simp add: same_members_def getPolyhedrons_def buildPolyhedrons_eq)

lemma draw_polyhedrons_result:
  "draw_polyhedrons vxo sf se seen rest w =
     (if rest = [] then w
      else ((fst w)\<lparr>last_render_state := vxo,
                    polyhedrons := seen @ map (set_style (if sf then SNC_BOUNDARY else SNC_SKELETON)) rest\<rparr>,
            emits (map (\<lambda>p. PolyhedronDraw (set_style (if sf then SNC_BOUNDARY else SNC_SKELETON) p) (sf \<and> se)) rest)
              (snd w)))"
proof (induction rest arbitrary: seen w)
  case Nil
  show ?case by simp
next
  case (Cons p rest)
  show ?case
    by (cases "rest = []") (simp_all add: Cons Let_def emits_Cons emits_Nil)
qed

lemma draw_unfold:
  "draw X vxo sf se w =
     (PRINTD ''draw() end''
        (fst (draw_polyhedrons vxo sf se []
                (polyhedrons (getPolyhedrons vxo (fst (draw_polysets X vxo (PRINTD ''draw()'' (fst w), snd w)))))
                (getPolyhedrons vxo (fst (draw_polysets X vxo (PRINTD ''draw()'' (fst w), snd w))),
                 snd (draw_polysets X vxo (PRINTD ''draw()'' (fst w), snd w))))),
      snd (draw_polyhedrons vxo sf se []
                (polyhedrons (getPolyhedrons vxo (fst (draw_polysets X vxo (PRINTD ''draw()'' (fst w), snd w)))))
                (getPolyhedrons vxo (fst (draw_polysets X vxo (PRINTD ''draw()'' (fst w), snd w))),
                 snd (draw_polysets X vxo (PRINTD ''draw()'' (fst w), snd w)))))"
  by (simp add: draw_def Let_def)

lemma draw_polysets_cached:
  "polyhedrons (getPolyhedrons vxo (fst (draw_polysets X vxo (PRINTD msg (fst w), snd w)))) =
     polyhedrons (getPolyhedrons vxo (fst w))"
proof -
  have "same_members (fst w) (PRINTD msg (fst w))" by (rule same_members_PRINTD)
  moreover have "same_members (PRINTD msg (fst w)) (fst (draw_polysets X vxo (PRINTD msg (fst w), snd w)))"
    using draw_polysets_members [of "(PRINTD msg (fst w), snd w)"] by simp
  ultimately have "same_members (fst w) (fst (draw_polysets X vxo (PRINTD msg (fst w), snd w)))"
    by (rule same_members_trans)
  then show ?thesis by (rule getPolyhedrons_same_members)
qed

lemma draw_cache_after:
  "polyhedrons (fst (draw X vxo showfaces showedges w)) =
       map (set_style (if showfaces then SNC_BOUNDARY else SNC_SKELETON))
         (polyhedrons (getPolyhedrons vxo (fst w)))"
proof -
  let ?w1 = "draw_polysets X vxo (PRINTD ''draw()'' (fst w), snd w)"
  let ?r = "getPolyhedrons vxo (fst ?w1)"
  have c: "polyhedrons ?r = polyhedrons (getPolyhedrons vxo (fst w))"
    by (rule draw_polysets_cached)
  show ?thesis
    by (cases "polyhedrons (getPolyhedrons vxo (fst w)) = []")
       (simp_all add: draw_unfold draw_polyhedrons_result c gl_issued_emits PRINTD_fields emits_Nil)
qed

text \<open>C7. On both paths (\<open>vxo\<close> is arbitrary) \<^verbatim>\<open>draw\<close> ends with one draw call per cached
  polyhedron, in cache order, each after \<^verbatim>\<open>set_style(SNC_BOUNDARY)\<close> when \<open>showfaces\<close> holds
  and \<^verbatim>\<open>set_style(SNC_SKELETON)\<close> when not, and each passed \<open>showfaces \<and> showedges\<close>; the
  cache holds the polyhedrons with that style afterwards.\<close>

theorem draw_styles:
  "gl_issued (snd (draw X vxo showfaces showedges w)) =
     gl_issued (snd (draw_polysets X vxo (PRINTD ''draw()'' (fst w), snd w)))
     @ map (\<lambda>p. PolyhedronDraw (set_style (if showfaces then SNC_BOUNDARY else SNC_SKELETON) p)
                   (showfaces \<and> showedges))
         (polyhedrons (getPolyhedrons vxo (fst w)))
   \<and> polyhedrons (fst (draw X vxo showfaces showedges w)) =
       map (set_style (if showfaces then SNC_BOUNDARY else SNC_SKELETON))
         (polyhedrons (getPolyhedrons vxo (fst w)))"
proof -
  let ?w1 = "draw_polysets X vxo (PRINTD ''draw()'' (fst w), snd w)"
  let ?r = "getPolyhedrons vxo (fst ?w1)"
  let ?st = "if showfaces then SNC_BOUNDARY else SNC_SKELETON"
  have cached: "polyhedrons ?r = polyhedrons (getPolyhedrons vxo (fst w))"
    by (rule draw_polysets_cached)
  have loop: "draw_polyhedrons vxo showfaces showedges [] (polyhedrons ?r) (?r, snd ?w1) =
      (if polyhedrons ?r = [] then (?r, snd ?w1)
       else (?r\<lparr>last_render_state := vxo, polyhedrons := map (set_style ?st) (polyhedrons ?r)\<rparr>,
             emits (map (\<lambda>p. PolyhedronDraw (set_style ?st p) (showfaces \<and> showedges)) (polyhedrons ?r))
               (snd ?w1)))"
    by (simp add: draw_polyhedrons_result)
  have calls: "gl_issued (snd (draw X vxo showfaces showedges w)) =
      gl_issued (snd ?w1)
      @ map (\<lambda>p. PolyhedronDraw (set_style ?st p) (showfaces \<and> showedges)) (polyhedrons ?r)"
    by (cases "polyhedrons ?r = []") (simp_all add: draw_unfold loop gl_issued_emits)
  have cache: "polyhedrons (fst (draw X vxo showfaces showedges w)) =
      map (set_style ?st) (polyhedrons ?r)"
    by (cases "polyhedrons ?r = []") (simp_all add: draw_unfold loop PRINTD_fields)
  show ?thesis
    using calls cache by (simp only: cached)
qed

lemma draw_last_render_state:
  "last_render_state (fst (draw X vxo sf se w)) =
     (if polyhedrons (getPolyhedrons vxo (fst w)) = [] then last_render_state (fst w) else vxo)"
proof -
  let ?w1 = "draw_polysets X vxo (PRINTD ''draw()'' (fst w), snd w)"
  let ?r = "getPolyhedrons vxo (fst ?w1)"
  have c: "polyhedrons ?r = polyhedrons (getPolyhedrons vxo (fst w))"
    by (rule draw_polysets_cached)
  have "same_members (PRINTD ''draw()'' (fst w)) (fst ?w1)"
    using draw_polysets_members [of "(PRINTD ''draw()'' (fst w), snd w)"] by simp
  then have l: "last_render_state (fst ?w1) = last_render_state (fst w)"
    by (simp add: same_members_def PRINTD_fields)
  show ?thesis
    by (simp add: draw_unfold draw_polyhedrons_result c PRINTD_fields getPolyhedrons_last l)
qed

lemma draw_keeps:
  "polysets (fst (draw X vxo sf se w)) = polysets (fst w)
   \<and> nefPolyhedrons (fst (draw X vxo sf se w)) = nefPolyhedrons (fst w)"
proof -
  let ?w1 = "draw_polysets X vxo (PRINTD ''draw()'' (fst w), snd w)"
  have "same_members (PRINTD ''draw()'' (fst w)) (fst ?w1)"
    using draw_polysets_members [of "(PRINTD ''draw()'' (fst w), snd w)"] by simp
  then have l: "polysets (fst ?w1) = polysets (fst w)" "nefPolyhedrons (fst ?w1) = nefPolyhedrons (fst w)"
    by (simp_all add: same_members_def PRINTD_fields)
  show ?thesis
    by (simp add: draw_unfold draw_polyhedrons_result PRINTD_fields getPolyhedrons_nef
        getPolyhedrons_polysets l)
qed

lemma draw_no_polyhedra:
  assumes "nefPolyhedrons (fst w) = []" and "polyhedrons (fst w) = []"
  shows "polyhedrons (fst (draw X vxo sf se w)) = []
         \<and> last_render_state (fst (draw X vxo sf se w)) = last_render_state (fst w)"
proof -
  have g: "getPolyhedrons vxo (fst w) = fst w"
    using assms by (simp add: getPolyhedrons_nothing)
  have "polyhedrons (fst (draw X vxo sf se w)) =
       map (set_style (if sf then SNC_BOUNDARY else SNC_SKELETON)) (polyhedrons (getPolyhedrons vxo (fst w)))"
    by (rule draw_cache_after)
  then show ?thesis
    using assms g by (simp add: draw_last_render_state)
qed

section \<open>A renderer in use: what the public methods keep\<close>

lemma CGALRenderer_new_result:
  assumes "CGALRenderer_new X cm cs vxo geom = Inr r0"
  shows "polysets r0 = flattened_polysets X geom"
    and "nefPolyhedrons r0 = flattened_polyhedra geom"
    and "polyhedrons r0 = []"
    and "last_render_state r0 = vxo"
  using assms
  by (auto simp add: CGALRenderer_new_def addGeometry_result flattened_polysets_def
      flattened_polyhedra_def split: if_splits)

lemma getBoundingBox_fst: "fst (getBoundingBox X vxo r) = getPolyhedrons vxo r"
  by (simp add: getBoundingBox_def Let_def)

lemma do_call_keeps:
  "polysets (fst (do_call X c w)) = polysets (fst w)
   \<and> nefPolyhedrons (fst (do_call X c w)) = nefPolyhedrons (fst w)"
  by (cases c)
     (simp_all add: draw_keeps setColorScheme_keeps getBoundingBox_fst getPolyhedrons_nef
        getPolyhedrons_polysets)

lemma do_call_no_polyhedra:
  assumes "nefPolyhedrons (fst w) = []" and "polyhedrons (fst w) = []"
  shows "polyhedrons (fst (do_call X c w)) = []
         \<and> last_render_state (fst (do_call X c w)) = last_render_state (fst w)"
proof (cases c)
  case (Draw vxo sf se)
  then show ?thesis using draw_no_polyhedra [OF assms] by simp
next
  case (SetColorScheme cs)
  then show ?thesis
    by (simp add: setColorScheme_keeps setColorScheme_cache)
next
  case (GetBoundingBox vxo)
  then show ?thesis
    using assms by (simp add: getBoundingBox_fst getPolyhedrons_nothing)
qed

lemma run_keeps:
  "polysets (fst (run X calls w)) = polysets (fst w)
   \<and> nefPolyhedrons (fst (run X calls w)) = nefPolyhedrons (fst w)"
proof (induction calls arbitrary: w)
  case Nil
  show ?case by (simp add: run_def)
next
  case (Cons c calls)
  have "run X (c # calls) w = run X calls (do_call X c w)"
    by (simp add: run_def)
  then show ?case
    using Cons [of "do_call X c w"] do_call_keeps [of X c w] by simp
qed

lemma run_no_polyhedra:
  "nefPolyhedrons (fst w) = [] \<Longrightarrow> polyhedrons (fst w) = [] \<Longrightarrow>
     polyhedrons (fst (run X calls w)) = []
     \<and> last_render_state (fst (run X calls w)) = last_render_state (fst w)"
proof (induction calls arbitrary: w)
  case Nil
  then show ?case by (simp add: run_def)
next
  case (Cons c calls)
  have u: "run X (c # calls) w = run X calls (do_call X c w)"
    by (simp add: run_def)
  have n: "nefPolyhedrons (fst (do_call X c w)) = []"
    using Cons.prems(1) do_call_keeps [of X c w] by simp
  have p: "polyhedrons (fst (do_call X c w)) = []
           \<and> last_render_state (fst (do_call X c w)) = last_render_state (fst w)"
    using Cons.prems by (rule do_call_no_polyhedra)
  show ?case
    using Cons.IH [of "do_call X c w"] n p u by simp
qed

text \<open>C10. Of the public methods only \<^verbatim>\<open>draw\<close> writes \<open>last_render_state\<close>, and only in
  its loop over the cached polyhedrons (\<open>draw_last_render_state\<close>, \<open>setColorScheme_keeps\<close>,
  \<open>getPolyhedrons_last\<close>). So a renderer constructed with no boundary polyhedron retained
  keeps the value captured by the constructor through every sequence of calls of \<^verbatim>\<open>draw\<close>,
  \<^verbatim>\<open>setColorScheme\<close> and \<^verbatim>\<open>getBoundingBox\<close>, whatever the flag is at each call.\<close>

theorem last_render_state_without_polyhedra:
  assumes "CGALRenderer_new X cm cs vxo0 geom = Inr r0"
    and "nefPolyhedrons r0 = []"
  shows "last_render_state (fst (run X calls (r0, g))) = vxo0"
proof -
  have "polyhedrons r0 = []" and "last_render_state r0 = vxo0"
    using assms(1) by (rule CGALRenderer_new_result)+
  then show ?thesis
    using run_no_polyhedra [of "(r0, g)" X calls] assms(2) by simp
qed

theorem last_render_state_without_polyhedra_witness:
  "CGALRenderer_new X0 cm0 0 True (Polygon2dGeometry square) = Inr square_renderer
   \<and> nefPolyhedrons square_renderer = []
   \<and> last_render_state
         (fst (run X0 [Draw False True True, SetColorScheme 1, GetBoundingBox False,
                       Draw True False True, Draw False True False] (square_renderer, gl0)))
       = True"
proof -
  have a: "CGALRenderer_new X0 cm0 0 True (Polygon2dGeometry square) = Inr square_renderer"
    by (simp add: CGALRenderer_new_def square_renderer_def blank_def)
  have b: "nefPolyhedrons square_renderer = []"
    by (simp add: square_renderer_def blank_def)
  show ?thesis
    using a b last_render_state_without_polyhedra [OF a b] by simp
qed

section \<open>getBoundingBox\<close>

lemma bbox_extend_Empty_right: "bbox_extend b EmptyBox = b"
  by (cases b) simp_all

lemma cwiseMin_assoc: "cwiseMin (cwiseMin a b) c = cwiseMin a (cwiseMin b c)"
  by (cases a, cases b, cases c) (simp add: min.assoc)

lemma cwiseMax_assoc: "cwiseMax (cwiseMax a b) c = cwiseMax a (cwiseMax b c)"
  by (cases a, cases b, cases c) (simp add: max.assoc)

lemma bbox_extend_assoc: "bbox_extend (bbox_extend a b) c = bbox_extend a (bbox_extend b c)"
  by (cases a; cases b; cases c) (simp_all add: cwiseMin_assoc cwiseMax_assoc)

lemma fold_bbox_extend:
  "fold (\<lambda>x bbox. bbox_extend bbox (f x)) xs b = bbox_extend b (bbox_union (map f xs))"
  by (induction xs arbitrary: b) (simp_all add: bbox_extend_Empty_right bbox_extend_assoc)

lemma bbox_union_append: "bbox_union (bs @ bs') = bbox_extend (bbox_union bs) (bbox_union bs')"
  by (induction bs) (simp_all add: bbox_extend_assoc)

lemma vec_le_cwise:
  "vec_le (cwiseMin a b) a" "vec_le (cwiseMin a b) b" "vec_le a (cwiseMax a b)" "vec_le b (cwiseMax a b)"
  by (cases a; cases b; simp)+

lemma vec_le_refl: "vec_le a a"
  by (cases a) simp

lemma vec_le_least:
  "vec_le c a \<Longrightarrow> vec_le c b \<Longrightarrow> vec_le c (cwiseMin a b)"
  "vec_le a c \<Longrightarrow> vec_le b c \<Longrightarrow> vec_le (cwiseMax a b) c"
  by (cases a; cases b; cases c; simp)+

lemma vec_le_trans: "vec_le a b \<Longrightarrow> vec_le b c \<Longrightarrow> vec_le a c"
  by (cases a; cases b; cases c) auto

lemma bbox_contains_refl: "bbox_contains b b"
  by (cases b) (simp_all add: vec_le_refl)

lemma bbox_contains_trans: "bbox_contains a b \<Longrightarrow> bbox_contains b c \<Longrightarrow> bbox_contains a c"
  by (cases a; cases b; cases c) (auto intro: vec_le_trans)

lemma bbox_extend_upper: "bbox_contains (bbox_extend a b) a" "bbox_contains (bbox_extend a b) b"
  by (cases a; cases b; simp add: vec_le_cwise vec_le_refl)+

lemma bbox_extend_least:
  "bbox_contains c a \<Longrightarrow> bbox_contains c b \<Longrightarrow> bbox_contains c (bbox_extend a b)"
  by (cases a; cases b; cases c) (simp_all add: vec_le_least)

lemma bbox_union_upper: "b \<in> set bs \<Longrightarrow> bbox_contains (bbox_union bs) b"
proof (induction bs)
  case Nil
  then show ?case by simp
next
  case (Cons a bs)
  show ?case
  proof (cases "b = a")
    case True
    then show ?thesis by (simp add: bbox_extend_upper)
  next
    case False
    then have "bbox_contains (bbox_union bs) b" using Cons by simp
    then show ?thesis
      using bbox_extend_upper(2) [of a "bbox_union bs"] by (auto intro: bbox_contains_trans)
  qed
qed

lemma bbox_union_least:
  "(\<And>b. b \<in> set bs \<Longrightarrow> bbox_contains c b) \<Longrightarrow> bbox_contains c (bbox_union bs)"
  by (induction bs) (simp_all add: bbox_extend_least)

lemma getBoundingBox_snd:
  "snd (getBoundingBox X vxo r) =
     bbox_union (map (polyhedron_box X) (polyhedrons (getPolyhedrons vxo r))
                 @ map (PolySet_getBoundingBox X) (polysets r))"
proof -
  have "(\<lambda>p bbox. bbox_extend bbox (Box (fst (Polyhedron_bbox X p)) (snd (Polyhedron_bbox X p))))
          = (\<lambda>p bbox. bbox_extend bbox (polyhedron_box X p))"
    by (simp add: polyhedron_box_def)
  then show ?thesis
    by (simp add: getBoundingBox_def Let_def fold_bbox_extend bbox_union_append
        getPolyhedrons_polysets)
qed

text \<open>C8. \<^verbatim>\<open>getBoundingBox\<close> returns the union of the boxes of the cached polyhedrons, the
  cache being what \<^verbatim>\<open>getPolyhedrons\<close> leaves (rebuilt when its condition holds), and of the
  boxes of the retained polygon sets. For a renderer made by the constructor and used through
  its public methods: with nothing retained the box is empty, and with one retained polygon
  set and no polyhedron it is that set's own box.\<close>

theorem getBoundingBox_union:
  "fst (getBoundingBox X vxo r) = getPolyhedrons vxo r
   \<and> snd (getBoundingBox X vxo r) =
       bbox_union (map (polyhedron_box X) (polyhedrons (getPolyhedrons vxo r))
                   @ map (PolySet_getBoundingBox X) (polysets r))
   \<and> (CGALRenderer_new X cm cs vxo0 geom = Inr r0 \<and> r = fst (run X calls (r0, g))
        \<and> nefPolyhedrons r = [] \<longrightarrow>
          (polysets r = [] \<longrightarrow> snd (getBoundingBox X vxo r) = EmptyBox)
        \<and> (polysets r = [ps] \<longrightarrow> snd (getBoundingBox X vxo r) = PolySet_getBoundingBox X ps))"
proof (intro conjI impI)
  show "fst (getBoundingBox X vxo r) = getPolyhedrons vxo r"
    by (rule getBoundingBox_fst)
  show "snd (getBoundingBox X vxo r) =
       bbox_union (map (polyhedron_box X) (polyhedrons (getPolyhedrons vxo r))
                   @ map (PolySet_getBoundingBox X) (polysets r))"
    by (rule getBoundingBox_snd)
next
  assume a: "CGALRenderer_new X cm cs vxo0 geom = Inr r0 \<and> r = fst (run X calls (r0, g))
        \<and> nefPolyhedrons r = []"
  have n0: "nefPolyhedrons r0 = []"
    using a run_keeps [of X calls "(r0, g)"] by auto
  have "polyhedrons r0 = []"
    using a CGALRenderer_new_result(3) by blast
  then have p: "polyhedrons r = []"
    using a n0 run_no_polyhedra [of "(r0, g)" X calls] by auto
  have "nefPolyhedrons r = []"
    using a by blast
  then have c: "polyhedrons (getPolyhedrons vxo r) = []"
    using p getPolyhedrons_nothing [of r vxo] by simp
  show "polysets r = [] \<Longrightarrow> snd (getBoundingBox X vxo r) = EmptyBox"
    by (simp add: getBoundingBox_snd c)
  show "polysets r = [ps] \<Longrightarrow> snd (getBoundingBox X vxo r) = PolySet_getBoundingBox X ps"
    by (simp add: getBoundingBox_snd c bbox_extend_Empty_right)
qed

theorem getBoundingBox_union_witness:
  "snd (getBoundingBox X0 False
          (fst (run X0 [Draw True True True, SetColorScheme 1] (triangle_renderer, gl0))))
     = Box (0, 0, 0) (2, 3, 5)
   \<and> snd (getBoundingBox X0 True (fst (run X0 [Draw False True True] (blank, gl0)))) = EmptyBox
   \<and> snd (getBoundingBox X0 False (one_solid\<lparr>polysets := [triangle3d]\<rparr>)) = Box (0, 0, 0) (7, 3, 5)"
proof -
  let ?r = "fst (run X0 [Draw True True True, SetColorScheme 1] (triangle_renderer, gl0))"
  let ?e = "fst (run X0 [Draw False True True] (blank, gl0))"
  have a: "CGALRenderer_new X0 cm0 0 True (PolySetGeometry triangle3d) = Inr triangle_renderer"
    by (simp add: CGALRenderer_new_def triangle_renderer_def blank_def triangle3d_def ps_tri_def X0_def)
  have k: "polysets ?r = [triangle3d] \<and> nefPolyhedrons ?r = []"
    using run_keeps [of X0 "[Draw True True True, SetColorScheme 1]" "(triangle_renderer, gl0)"]
    by (simp add: triangle_renderer_def blank_def)
  have b: "PolySet_getBoundingBox X0 triangle3d = Box (0, 0, 0) (2, 3, 5)"
    by (simp add: X0_def triangle3d_def)
  have a': "CGALRenderer_new X0 cm0 0 False OtherGeometry = Inr blank"
    by (simp add: CGALRenderer_new_def blank_def)
  have k': "polysets ?e = [] \<and> nefPolyhedrons ?e = []"
    using run_keeps [of X0 "[Draw False True True]" "(blank, gl0)"]
    by (simp add: blank_def)
  have u: "snd (getBoundingBox X0 False (one_solid\<lparr>polysets := [triangle3d]\<rparr>))
             = bbox_union (map (polyhedron_box X0)
                    (polyhedrons (getPolyhedrons False (one_solid\<lparr>polysets := [triangle3d]\<rparr>)))
                 @ map (PolySet_getBoundingBox X0) (polysets (one_solid\<lparr>polysets := [triangle3d]\<rparr>)))"
    using getBoundingBox_union [of X0 False "one_solid\<lparr>polysets := [triangle3d]\<rparr>"] by blast
  have "snd (getBoundingBox X0 False ?r) = PolySet_getBoundingBox X0 triangle3d"
    using getBoundingBox_union [of X0 False ?r cm0 0 True "PolySetGeometry triangle3d"
        triangle_renderer "[Draw True True True, SetColorScheme 1]" gl0 triangle3d] a k
    by blast
  moreover have "snd (getBoundingBox X0 True ?e) = EmptyBox"
    using getBoundingBox_union [of X0 True ?e cm0 0 False OtherGeometry blank
        "[Draw False True True]" gl0] a' k'
    by blast
  moreover have "snd (getBoundingBox X0 False (one_solid\<lparr>polysets := [triangle3d]\<rparr>)) = Box (0, 0, 0) (7, 3, 5)"
    unfolding u
    by (simp add: getPolyhedrons_def buildPolyhedrons_eq one_solid_def blank_def polyhedron_box_def
        new_polyhedron_def solid_def b) (simp add: X0_def)
  ultimately show ?thesis
    by (simp add: b)
qed

section \<open>The pass over the segments\<close>

lemma gl_issued_drawArrays: "gl_issued (drawArrays vs g) = gl_issued g @ state_calls vs"
  by (simp add: drawArrays_def state_calls_def gl_issued_emits)

lemma draw_state_simps:
  "draw_state None g = g"
  "draw_state (Some vs) g = drawArrays vs g"
  by (simp_all add: draw_state_def)

lemma gl_issued_draw_states:
  "gl_issued (fold draw_state sts g) = gl_issued g @ segment_calls sts"
proof (induction sts arbitrary: g)
  case Nil
  show ?case by (simp add: segment_calls_def)
next
  case (Cons s sts)
  show ?case
    by (cases s) (simp_all add: Cons segment_calls_def draw_state_simps gl_issued_drawArrays)
qed

lemma gl_enabled_emit_cong:
  "gl_enabled g = gl_enabled g' \<Longrightarrow> gl_enabled (emit e g) = gl_enabled (emit e g')"
proof (cases e)
  case (GL c)
  assume "gl_enabled g = gl_enabled g'"
  with GL show ?thesis by (cases c) simp_all
qed simp_all

lemma gl_enabled_emits_cong:
  "gl_enabled g = gl_enabled g' \<Longrightarrow> gl_enabled (emits es g) = gl_enabled (emits es g')"
proof (induction es arbitrary: g g')
  case Nil
  then show ?case by (simp add: emits_Nil)
next
  case (Cons e es)
  have "gl_enabled (emit e g) = gl_enabled (emit e g')"
    using Cons.prems by (rule gl_enabled_emit_cong)
  then have "gl_enabled (emits es (emit e g)) = gl_enabled (emits es (emit e g'))"
    by (rule Cons.IH)
  then show ?case
    by (simp add: emits_Cons)
qed

lemma gl_enabled_draw_states_cong:
  "gl_enabled g = gl_enabled g' \<Longrightarrow>
     gl_enabled (fold draw_state sts g) = gl_enabled (fold draw_state sts g')"
proof (induction sts arbitrary: g g')
  case Nil
  then show ?case by simp
next
  case (Cons s sts)
  have "gl_enabled (draw_state s g) = gl_enabled (draw_state s g')"
  proof (cases s)
    case None
    then show ?thesis using Cons.prems by (simp add: draw_state_simps)
  next
    case (Some vs)
    have "gl_enabled (drawArrays vs g) = gl_enabled (drawArrays vs g')"
      unfolding drawArrays_def using Cons.prems by (rule gl_enabled_emits_cong)
    then show ?thesis using Some by (simp add: draw_state_simps)
  qed
  then have "gl_enabled (fold draw_state sts (draw_state s g)) = gl_enabled (fold draw_state sts (draw_state s g'))"
    by (rule Cons.IH)
  then show ?case by simp
qed




section \<open>The buffered path, field by field\<close>

lemma createPolysets_gl:
  "gl_enabled (snd (createPolysets X w)) = gl_enabled (snd w)"
  "gl_point_size (snd (createPolysets X w)) = gl_point_size (snd w)"
  "gl_line_width (snd (createPolysets X w)) = gl_line_width (snd w)"
  by (simp_all add: createPolysets_def Let_def)

lemma createPolysets_vbo:
  "polyset_vbo (fst (createPolysets X w)) =
     (if polysets (fst w) \<noteq> [] then gl_next_buffer (snd w) else polyset_vbo (fst w))"
proof -
  let ?r1 = "(PRINTD ''createPolysets() polyset'' (fst w))\<lparr>polyset_states := []\<rparr>"
  have m: "same_members ?r1 (fold (createPolysets_polyset X) (polysets ?r1) ?r1)"
    using fold_createPolysets_polyset by blast
  have v: "polyset_vbo (fold (createPolysets_polyset X) pss r) = polyset_vbo r" for pss r
    by (induction pss arbitrary: r)
       (simp_all add: createPolysets_polyset_def Let_def PRINTD_def emplace_back_def)
  from m have "polysets (fold (createPolysets_polyset X) (polysets ?r1) ?r1) = polysets (fst w)"
    by (simp add: same_members_def PRINTD_fields)
  then show ?thesis
    by (simp add: createPolysets_def Let_def v PRINTD_fields)
qed

lemma draw_vxo_prepared:
  "draw_vxo X w =
     (let w1 = prepared X w;
          r = fst w1;
          g = snd w1;
          origVertexArrayState = gl_enabled g GL_VERTEX_ARRAY;
          origNormalArrayState = gl_enabled g GL_NORMAL_ARRAY;
          origColorArrayState = gl_enabled g GL_COLOR_ARRAY;
          current_point_size = gl_point_size g;
          current_line_width = gl_line_width g;
          g = emit (GL (GlBindBuffer (polyset_vbo r))) g;
          g = fold draw_state (polyset_states r) g;
          g = emit (GL (GlBindBuffer 0)) g;
          g = emit (GL (GlPointSize current_point_size)) g;
          g = emit (GL (GlLineWidth current_line_width)) g;
          g = (if \<not> origVertexArrayState then emit (GL (GlDisableClientState GL_VERTEX_ARRAY)) g else g);
          g = (if \<not> origNormalArrayState then emit (GL (GlDisableClientState GL_NORMAL_ARRAY)) g else g);
          g = (if \<not> origColorArrayState then emit (GL (GlDisableClientState GL_COLOR_ARRAY)) g else g)
      in (r, g))"
  by (simp only: draw_vxo_def prepared_def Let_def)

lemma draw_vxo_fst: "fst (draw_vxo X w) = fst (prepared X w)"
  by (simp add: draw_vxo_prepared Let_def)

lemma draw_vxo_snd_prepared:
  "snd (draw_vxo X w) =
     emits (restore_calls (snd (prepared X w)))
       (emit (GL (GlBindBuffer 0))
          (fold draw_state (polyset_states (fst (prepared X w)))
             (emit (GL (GlBindBuffer (polyset_vbo (fst (prepared X w))))) (snd (prepared X w)))))"
  by (simp add: draw_vxo_prepared Let_def restore_calls_def emits_Cons emits_Nil)

lemma prepared_states:
  "polyset_states (fst (prepared X w)) =
     (if polyset_states (fst w) = []
      then map Some (concat (map (polyset_segments X (colormap (fst w))) (polysets (fst w))))
      else polyset_states (fst w))"
  by (simp add: prepared_def Let_def createPolysets_states PRINTD_fields)

lemma prepared_vbo:
  "polyset_vbo (fst (prepared X w)) =
     (if polyset_states (fst w) = [] \<and> polysets (fst w) \<noteq> []
      then gl_next_buffer (snd w) else polyset_vbo (fst w))"
  by (simp add: prepared_def Let_def createPolysets_vbo PRINTD_fields)

lemma prepared_gl:
  "gl_enabled (snd (prepared X w)) = gl_enabled (snd w)"
  "gl_point_size (snd (prepared X w)) = gl_point_size (snd w)"
  "gl_line_width (snd (prepared X w)) = gl_line_width (snd w)"
  by (simp_all add: prepared_def Let_def createPolysets_gl)

lemma createPolysets_issued:
  "gl_issued (snd (createPolysets X w)) =
     gl_issued (snd w) @
     (if polysets (fst w) \<noteq> []
      then [GL (GlGenBuffers (gl_next_buffer (snd w))), CreateInterleavedVBO (gl_next_buffer (snd w))]
      else [])"
proof -
  let ?r1 = "(PRINTD ''createPolysets() polyset'' (fst w))\<lparr>polyset_states := []\<rparr>"
  have m: "same_members ?r1 (fold (createPolysets_polyset X) (polysets ?r1) ?r1)"
    using fold_createPolysets_polyset by blast
  then have "polysets (fold (createPolysets_polyset X) (polysets ?r1) ?r1) = polysets (fst w)"
    by (simp add: same_members_def PRINTD_fields)
  then show ?thesis
    by (simp add: createPolysets_def Let_def gl_issued_emit)
qed

lemma prepared_issued:
  "gl_issued (snd (prepared X w)) =
     gl_issued (snd w) @
     (if polyset_states (fst w) = [] \<and> polysets (fst w) \<noteq> []
      then [GL (GlGenBuffers (gl_next_buffer (snd w))), CreateInterleavedVBO (gl_next_buffer (snd w))]
      else [])"
  by (simp add: prepared_def Let_def createPolysets_issued PRINTD_fields)

lemma draw_vxo_snd:
  "snd (draw_vxo X w) =
     emits (restore_calls (snd w))
       (emit (GL (GlBindBuffer 0))
          (fold draw_state (polyset_states (fst (prepared X w)))
             (emit (GL (GlBindBuffer (polyset_vbo (fst (prepared X w))))) (snd (prepared X w)))))"
proof -
  have "restore_calls (snd (prepared X w)) = restore_calls (snd w)"
    by (simp add: restore_calls_def prepared_gl)
  then show ?thesis by (simp add: draw_vxo_snd_prepared)
qed

lemma draw_vxo_issued:
  "gl_issued (snd (draw_vxo X w)) =
     gl_issued (snd (prepared X w))
     @ [GL (GlBindBuffer (polyset_vbo (fst (prepared X w))))]
     @ segment_calls (polyset_states (fst (prepared X w)))
     @ [GL (GlBindBuffer 0)] @ restore_calls (snd w)"
  by (simp add: draw_vxo_snd gl_issued_emits gl_issued_emit gl_issued_draw_states)

lemma restore_calls_fields:
  "gl_point_size (emits (restore_calls g0) g) = gl_point_size g0"
  "gl_line_width (emits (restore_calls g0) g) = gl_line_width g0"
  by (simp_all add: restore_calls_def emits_Cons emits_Nil)

lemma restore_calls_enabled:
  "gl_enabled (emits (restore_calls g0) g) c =
     (if (c = GL_VERTEX_ARRAY \<or> c = GL_NORMAL_ARRAY \<or> c = GL_COLOR_ARRAY) \<and> \<not> gl_enabled g0 c
      then False else gl_enabled g c)"
  by (cases c) (simp_all add: restore_calls_def emits_Cons emits_Nil)

lemma draw_vxo_enabled:
  "gl_enabled (snd (draw_vxo X w)) c =
     (if (c = GL_VERTEX_ARRAY \<or> c = GL_NORMAL_ARRAY \<or> c = GL_COLOR_ARRAY) \<and> \<not> gl_enabled (snd w) c
      then False
      else gl_enabled (fold draw_state (polyset_states (fst (draw_vxo X w))) (snd w)) c)"
proof -
  let ?S = "polyset_states (fst (prepared X w))"
  let ?g2 = "emit (GL (GlBindBuffer (polyset_vbo (fst (prepared X w))))) (snd (prepared X w))"
  have "gl_enabled ?g2 = gl_enabled (snd w)"
    by (simp add: prepared_gl)
  then have "gl_enabled (fold draw_state ?S ?g2) = gl_enabled (fold draw_state ?S (snd w))"
    by (rule gl_enabled_draw_states_cong)
  then have "gl_enabled (emit (GL (GlBindBuffer 0)) (fold draw_state ?S ?g2)) c
               = gl_enabled (fold draw_state ?S (snd w)) c"
    by simp
  then show ?thesis
    by (simp add: draw_vxo_snd draw_vxo_fst restore_calls_enabled)
qed

lemma draw_fields:
  "polyset_states (fst (draw X vxo sf se w)) =
     polyset_states (fst (draw_polysets X vxo (PRINTD ''draw()'' (fst w), snd w)))"
  "polyset_vbo (fst (draw X vxo sf se w)) =
     polyset_vbo (fst (draw_polysets X vxo (PRINTD ''draw()'' (fst w), snd w)))"
  "colormap (fst (draw X vxo sf se w)) = colormap (fst w)"
proof -
  let ?w1 = "draw_polysets X vxo (PRINTD ''draw()'' (fst w), snd w)"
  have g: "polyset_states (getPolyhedrons vxo r) = polyset_states r"
    "polyset_vbo (getPolyhedrons vxo r) = polyset_vbo r"
    "colormap (getPolyhedrons vxo r) = colormap r" for r
    by (simp_all add: getPolyhedrons_def buildPolyhedrons_eq)
  show "polyset_states (fst (draw X vxo sf se w)) = polyset_states (fst ?w1)"
    by (simp add: draw_unfold draw_polyhedrons_result PRINTD_fields g)
  show "polyset_vbo (fst (draw X vxo sf se w)) = polyset_vbo (fst ?w1)"
    by (simp add: draw_unfold draw_polyhedrons_result PRINTD_fields g)
  have "same_members (PRINTD ''draw()'' (fst w)) (fst ?w1)"
    using draw_polysets_members [of "(PRINTD ''draw()'' (fst w), snd w)"] by simp
  then have "colormap (fst ?w1) = colormap (fst w)"
    by (simp add: same_members_def PRINTD_fields)
  then show "colormap (fst (draw X vxo sf se w)) = colormap (fst w)"
    by (simp add: draw_unfold draw_polyhedrons_result PRINTD_fields g)
qed

lemma draw_snd_no_polyhedra:
  assumes "polyhedrons (getPolyhedrons vxo (fst w)) = []"
  shows "snd (draw X vxo sf se w) = snd (draw_polysets X vxo (PRINTD ''draw()'' (fst w), snd w))"
proof -
  let ?w1 = "draw_polysets X vxo (PRINTD ''draw()'' (fst w), snd w)"
  have "polyhedrons (getPolyhedrons vxo (fst ?w1)) = []"
    using assms by (simp add: draw_polysets_cached)
  then show ?thesis
    by (simp add: draw_unfold)
qed



















section \<open>The order of the calls for a 2D polygon set\<close>

lemma draw_polyset_2d_calls:
  assumes "ps_dimension ps = 2"
  shows "gl_issued (snd (draw_polyset ps w)) =
     gl_issued (snd w)
     @ [GL (GlDisable GL_LIGHTING), SetColor CGAL_FACE_2D_COLOR (colormap (fst w) CGAL_FACE_2D_COLOR)]
     @ concat (map polygon_calls (ps_polygons ps))
     @ [GL (GlDisable GL_DEPTH_TEST), GL (GlLineWidth 2),
        SetColor CGAL_EDGE_2D_COLOR (colormap (fst w) CGAL_EDGE_2D_COLOR),
        RenderEdges ps CSGMODE_NONE, GL (GlEnable GL_DEPTH_TEST)]"
  using assms
  by (simp add: draw_polyset_def Let_def gl_issued_emit gl_issued_emits setColor_def PRINTD_fields)

lemma segment_calls_append: "segment_calls (a @ b) = segment_calls a @ segment_calls b"
  by (simp add: segment_calls_def)

lemma segment_calls_Cons: "segment_calls (Some vs # sts) = state_calls vs @ segment_calls sts"
  by (simp add: segment_calls_def)

lemma segment_calls_Nil: "segment_calls [] = []"
  by (simp add: segment_calls_def)

lemma polyset_segments_2d_calls:
  assumes "ps_dimension ps = 2"
  shows "segment_calls (map Some (polyset_segments X cm ps)) =
     [GL (GlDrawArrays []), GL (GlDisable GL_LIGHTING)]
     @ segment_calls (map Some (create_polygons X ps CSGMODE_NONE (cm CGAL_FACE_2D_COLOR)))
     @ [GL (GlDisable GL_DEPTH_TEST), GL (GlLineWidth 2), GL (GlDrawArrays [])]
     @ segment_calls (map Some (create_edges X ps CSGMODE_NONE (cm CGAL_EDGE_2D_COLOR)))
     @ [GL (GlEnable GL_DEPTH_TEST), GL (GlDrawArrays [])]"
  using assms
  by (simp add: polyset_segments_def segment_calls_append segment_calls_Cons segment_calls_Nil
      state_calls_def init_state_def edge_state_def end_state_def new_VertexState_def)

lemma segment_calls_concat:
  "segment_calls (map Some (concat xss)) = concat (map (\<lambda>xs. segment_calls (map Some xs)) xss)"
  by (induction xss) (simp_all add: segment_calls_Nil segment_calls_append)

text \<open>When the segments are built by this call, every polygon set is drawn from the segments
  of the current colormap, in the order of \<open>polysets\<close>.\<close>

lemma draw_vxo_fresh_calls:
  assumes "polyset_states (fst w) = []"
  shows "gl_issued (snd (draw_vxo X w)) =
     gl_issued (snd (prepared X w))
     @ [GL (GlBindBuffer (polyset_vbo (fst (prepared X w))))]
     @ concat (map (\<lambda>ps. segment_calls (map Some (polyset_segments X (colormap (fst w)) ps)))
                 (polysets (fst w)))
     @ [GL (GlBindBuffer 0)] @ restore_calls (snd w)"
  using assms by (simp add: draw_vxo_issued prepared_states segment_calls_concat comp_def)

text \<open>When segments exist, they are drawn as they are, whatever the colormap is now.\<close>

lemma draw_vxo_reuses_segments:
  assumes "polyset_states (fst w) \<noteq> []"
  shows "gl_issued (snd (draw_vxo X w)) =
     gl_issued (snd w) @ [GL (GlBindBuffer (polyset_vbo (fst w)))]
     @ segment_calls (polyset_states (fst w))
     @ [GL (GlBindBuffer 0)] @ restore_calls (snd w)"
  using assms by (simp add: draw_vxo_issued prepared_states prepared_vbo prepared_issued)

text \<open>The styles of C7 at a renderer holding one solid, on both paths.\<close>

theorem draw_styles_witness:
  "gl_issued (snd (draw X0 False True False (one_solid, gl0))) =
     [PolyhedronDraw (set_style SNC_BOUNDARY (new_polyhedron False 0 solid)) False]
   \<and> gl_issued (snd (draw X0 False False True (one_solid, gl0))) =
     [PolyhedronDraw (set_style SNC_SKELETON (new_polyhedron False 0 solid)) False]
   \<and> gl_issued (snd (draw X0 True True True (one_solid, gl0))) =
     [GL (GlBindBuffer 0), GL (GlBindBuffer 0), GL (GlPointSize 1), GL (GlLineWidth 1),
      GL (GlDisableClientState GL_VERTEX_ARRAY), GL (GlDisableClientState GL_NORMAL_ARRAY),
      GL (GlDisableClientState GL_COLOR_ARRAY),
      PolyhedronDraw (set_style SNC_BOUNDARY (new_polyhedron True 0 solid)) True]"
proof -
  have c: "polyhedrons (getPolyhedrons vxo one_solid) = [new_polyhedron vxo 0 solid]" for vxo
    by (simp add: getPolyhedrons_def buildPolyhedrons_eq one_solid_def blank_def)
  have l: "gl_issued (snd (draw_polysets X0 False (PRINTD ''draw()'' one_solid, gl0))) = []"
    by (simp add: draw_polysets_def PRINTD_fields one_solid_def blank_def gl0_def)
  have b: "gl_issued (snd (draw_polysets X0 True (PRINTD ''draw()'' one_solid, gl0))) =
     [GL (GlBindBuffer 0), GL (GlBindBuffer 0), GL (GlPointSize 1), GL (GlLineWidth 1),
      GL (GlDisableClientState GL_VERTEX_ARRAY), GL (GlDisableClientState GL_NORMAL_ARRAY),
      GL (GlDisableClientState GL_COLOR_ARRAY)]"
    by (simp add: draw_polysets_def draw_vxo_issued prepared_issued prepared_states prepared_vbo
        restore_calls_def segment_calls_def PRINTD_fields one_solid_def blank_def gl0_def)
  show ?thesis
    using draw_styles [of X0 False True False "(one_solid, gl0)"]
      draw_styles [of X0 False False True "(one_solid, gl0)"]
      draw_styles [of X0 True True True "(one_solid, gl0)"]
    by (simp add: c l b)
qed

section \<open>A colour scheme change between two buffered draws\<close>

lemma square_renderer_new:
  "CGALRenderer_new X0 cm0 0 True (Polygon2dGeometry square) = Inr square_renderer"
  by (simp add: CGALRenderer_new_def square_renderer_def blank_def)

lemma recolored_eq: "recolored = (setColorScheme X0 1 (fst square_drawn), snd square_drawn)"
  by (simp add: recolored_def run_def square_drawn_def)

lemma square_no_polyhedra:
  "polyhedrons (getPolyhedrons vxo (fst (square_renderer, g))) = []"
  by (simp add: getPolyhedrons_def square_renderer_def blank_def)

lemma square_drawn_fields:
  "polyset_states (fst square_drawn) = map Some (polyset_segments X0 cm0 (Polygon2d_tessellate X0 square))"
  "polyset_vbo (fst square_drawn) = 1"
  "polysets (fst square_drawn) = [Polygon2d_tessellate X0 square]"
  "nefPolyhedrons (fst square_drawn) = []"
  "polyhedrons (fst square_drawn) = []"
  "colormap (fst square_drawn) = cm0"
proof -
  show "polyset_states (fst square_drawn) = map Some (polyset_segments X0 cm0 (Polygon2d_tessellate X0 square))"
    by (simp add: square_drawn_def draw_fields draw_polysets_def draw_vxo_fst prepared_states
        PRINTD_fields square_renderer_def blank_def)
  show "polyset_vbo (fst square_drawn) = 1"
    by (simp add: square_drawn_def draw_fields draw_polysets_def draw_vxo_fst prepared_vbo
        PRINTD_fields square_renderer_def blank_def gl0_def)
  show "polysets (fst square_drawn) = [Polygon2d_tessellate X0 square]"
    by (simp add: square_drawn_def draw_keeps square_renderer_def)
  show "nefPolyhedrons (fst square_drawn) = []"
    by (simp add: square_drawn_def draw_keeps square_renderer_def blank_def)
  show "polyhedrons (fst square_drawn) = []"
    using draw_no_polyhedra [of "(square_renderer, gl0)" X0 True True True]
    by (simp add: square_drawn_def square_renderer_def blank_def)
  show "colormap (fst square_drawn) = cm0"
    by (simp add: square_drawn_def draw_fields square_renderer_def blank_def)
qed

lemma square_drawn_gl:
  "gl_point_size (snd square_drawn) = 1"
  "gl_line_width (snd square_drawn) = 1"
  "\<not> gl_enabled (snd square_drawn) GL_VERTEX_ARRAY"
  "\<not> gl_enabled (snd square_drawn) GL_NORMAL_ARRAY"
  "\<not> gl_enabled (snd square_drawn) GL_COLOR_ARRAY"
proof -
  have s: "snd square_drawn = snd (draw_vxo X0 (PRINTD ''draw()'' square_renderer, gl0))"
    using draw_snd_no_polyhedra [OF square_no_polyhedra, where X = X0 and sf = True and se = True]
    by (simp add: square_drawn_def draw_polysets_def)
  show "gl_point_size (snd square_drawn) = 1" "gl_line_width (snd square_drawn) = 1"
    by (simp_all add: s draw_vxo_snd restore_calls_fields gl0_def)
  show "\<not> gl_enabled (snd square_drawn) GL_VERTEX_ARRAY"
    "\<not> gl_enabled (snd square_drawn) GL_NORMAL_ARRAY"
    "\<not> gl_enabled (snd square_drawn) GL_COLOR_ARRAY"
    by (simp_all add: s draw_vxo_enabled gl0_def)
qed

lemma recolored_fields:
  "polyset_states (fst recolored) = map Some (polyset_segments X0 cm0 (Polygon2d_tessellate X0 square))"
  "polyset_vbo (fst recolored) = 1"
  "polysets (fst recolored) = [Polygon2d_tessellate X0 square]"
  "nefPolyhedrons (fst recolored) = []"
  "colormap (fst recolored) CGAL_FACE_2D_COLOR = Color4f 1 1 0 1"
  "colormap (fst recolored) CGAL_EDGE_2D_COLOR = Color4f 1 0 1 1"
  by (simp_all add: recolored_eq setColorScheme_keeps square_drawn_fields
      setColorScheme_colormap X0_def scheme_color_def)

text \<open>C4. The order holds on both paths (\<open>draw_polyset_2d_calls\<close>,
  \<open>polyset_segments_2d_calls\<close>), and a buffered draw that builds its segments uses the
  current colours (\<open>draw_vxo_fresh_calls\<close>). But \<^verbatim>\<open>setColorScheme\<close> leaves \<open>polyset_states\<close>
  alone and \<^verbatim>\<open>draw\<close> rebuilds the segments only when that list is empty: after a buffered
  draw of one 2D square under scheme 0 and a change to scheme 1, the buffered path still
  draws faces and edges in the colours of scheme 0, while the legacy path, from the same
  state, selects the colours of scheme 1.\<close>

theorem draw_vxo_stale_colours:
  "CGALRenderer_new X0 cm0 0 True (Polygon2dGeometry square) = Inr square_renderer
   \<and> colormap (fst recolored) CGAL_FACE_2D_COLOR = Color4f 1 1 0 1
   \<and> colormap (fst recolored) CGAL_EDGE_2D_COLOR = Color4f 1 0 1 1
   \<and> gl_issued (snd (draw X0 True True True recolored)) =
       gl_issued (snd recolored) @
       [GL (GlBindBuffer 1), GL (GlDrawArrays []), GL (GlDisable GL_LIGHTING),
        GL (GlDrawArrays
             [((0, 0, 0), None, Color4f 0 1 0 1), ((1, 0, 0), None, Color4f 0 1 0 1),
              ((1, 1, 0), None, Color4f 0 1 0 1), ((0, 1, 0), None, Color4f 0 1 0 1)]),
        GL (GlDisable GL_DEPTH_TEST), GL (GlLineWidth 2), GL (GlDrawArrays []),
        GL (GlDrawArrays
             [((0, 0, 0), None, Color4f 0 0 1 1), ((1, 0, 0), None, Color4f 0 0 1 1),
              ((1, 1, 0), None, Color4f 0 0 1 1), ((0, 1, 0), None, Color4f 0 0 1 1)]),
        GL (GlEnable GL_DEPTH_TEST), GL (GlDrawArrays []), GL (GlBindBuffer 0),
        GL (GlPointSize 1), GL (GlLineWidth 1),
        GL (GlDisableClientState GL_VERTEX_ARRAY), GL (GlDisableClientState GL_NORMAL_ARRAY),
        GL (GlDisableClientState GL_COLOR_ARRAY)]
   \<and> gl_issued (snd (draw X0 False True True recolored)) =
       gl_issued (snd recolored) @
       [GL (GlDisable GL_LIGHTING), SetColor CGAL_FACE_2D_COLOR (Color4f 1 1 0 1),
        GL GlBeginPolygon, GL (GlVertex3d 0 0 0), GL (GlVertex3d 1 0 0), GL (GlVertex3d 1 1 0),
        GL (GlVertex3d 0 1 0), GL GlEnd,
        GL (GlDisable GL_DEPTH_TEST), GL (GlLineWidth 2),
        SetColor CGAL_EDGE_2D_COLOR (Color4f 1 0 1 1),
        RenderEdges (Polygon2d_tessellate X0 square) CSGMODE_NONE, GL (GlEnable GL_DEPTH_TEST)]"
proof -
  let ?w = "(PRINTD ''draw()'' (fst recolored), snd recolored)"
  have "polyhedrons (fst recolored) = []"
    by (simp add: recolored_eq setColorScheme_cache)
  then have n: "polyhedrons (getPolyhedrons vxo (fst recolored)) = []" for vxo
    using getPolyhedrons_nothing [of "fst recolored" vxo] by (simp add: recolored_fields)
  have g: "snd recolored = snd square_drawn"
    by (simp add: recolored_eq)
  have buffered: "gl_issued (snd (draw X0 True True True recolored)) = gl_issued (snd (draw_vxo X0 ?w))"
    using draw_snd_no_polyhedra [OF n, where X = X0 and sf = True and se = True]
    by (simp add: draw_polysets_def)
  have legacy: "gl_issued (snd (draw X0 False True True recolored)) =
                  gl_issued (snd (draw_polyset (Polygon2d_tessellate X0 square) ?w))"
    using draw_snd_no_polyhedra [OF n, where X = X0 and sf = True and se = True]
    by (simp add: draw_polysets_def PRINTD_fields recolored_fields)
  have d: "ps_dimension (Polygon2d_tessellate X0 square) = 2"
    by (simp add: X0_def)
  have ne: "polyset_segments X0 cm0 (Polygon2d_tessellate X0 square) \<noteq> []"
    by (simp add: polyset_segments_def d)
  have b: "gl_issued (snd (draw_vxo X0 ?w)) =
       gl_issued (snd recolored) @ [GL (GlBindBuffer 1)]
       @ segment_calls (map Some (polyset_segments X0 cm0 (Polygon2d_tessellate X0 square)))
       @ [GL (GlBindBuffer 0)] @ restore_calls (snd recolored)"
    by (simp add: draw_vxo_issued prepared_issued prepared_states prepared_vbo PRINTD_fields
        recolored_fields ne)
  have r: "restore_calls (snd recolored) =
      [GL (GlPointSize 1), GL (GlLineWidth 1),
        GL (GlDisableClientState GL_VERTEX_ARRAY), GL (GlDisableClientState GL_NORMAL_ARRAY),
        GL (GlDisableClientState GL_COLOR_ARRAY)]"
    by (simp add: restore_calls_def g square_drawn_gl)
  have sc: "segment_calls (map Some (create_polygons X0 (Polygon2d_tessellate X0 square) CSGMODE_NONE (cm0 CGAL_FACE_2D_COLOR)))
       = [GL (GlDrawArrays
             [((0, 0, 0), None, Color4f 0 1 0 1), ((1, 0, 0), None, Color4f 0 1 0 1),
              ((1, 1, 0), None, Color4f 0 1 0 1), ((0, 1, 0), None, Color4f 0 1 0 1)])]"
    "segment_calls (map Some (create_edges X0 (Polygon2d_tessellate X0 square) CSGMODE_NONE (cm0 CGAL_EDGE_2D_COLOR)))
       = [GL (GlDrawArrays
             [((0, 0, 0), None, Color4f 0 0 1 1), ((1, 0, 0), None, Color4f 0 0 1 1),
              ((1, 1, 0), None, Color4f 0 0 1 1), ((0, 1, 0), None, Color4f 0 0 1 1)])]"
    by (simp_all add: X0_def segment_calls_Cons segment_calls_Nil state_calls_def new_VertexState_def
        colored_points_def square_def cm0_def scheme_color_def)
  have l: "gl_issued (snd (draw_polyset (Polygon2d_tessellate X0 square) ?w)) =
       gl_issued (snd recolored) @
       [GL (GlDisable GL_LIGHTING), SetColor CGAL_FACE_2D_COLOR (Color4f 1 1 0 1),
        GL GlBeginPolygon, GL (GlVertex3d 0 0 0), GL (GlVertex3d 1 0 0), GL (GlVertex3d 1 1 0),
        GL (GlVertex3d 0 1 0), GL GlEnd,
        GL (GlDisable GL_DEPTH_TEST), GL (GlLineWidth 2),
        SetColor CGAL_EDGE_2D_COLOR (Color4f 1 0 1 1),
        RenderEdges (Polygon2d_tessellate X0 square) CSGMODE_NONE, GL (GlEnable GL_DEPTH_TEST)]"
    using draw_polyset_2d_calls [OF d, of ?w]
    by (simp add: PRINTD_fields recolored_fields) (simp add: X0_def square_def)
  show ?thesis
    by (simp add: square_renderer_new recolored_fields buffered legacy b r l
        polyset_segments_2d_calls [OF d] sc)
qed

end
